theory Spec2Isabelle
  imports Main "HOL-Library.Sublist"
begin

section \<open>Data model\<close>

text \<open>
  A calendar date (Python \<open>datetime.date\<close>, the ISO text of the column \<open>date_joined\<close>)
  is represented by its day ordinal, an integer: \<open>date + timedelta(days=n)\<close> is addition,
  and both SQLite's \<open>date(...)\<close> and the comparison of dates follow the order of the
  ordinals. The range limits of \<open>datetime.date\<close> (years 1 to 9999) are not modelled.
  A \<open>datetime.datetime\<close> is kept to the second.
\<close>

record datetime =
  dt_date :: int
  dt_hour :: nat
  dt_minute :: nat
  dt_second :: nat

definition combine :: "int \<Rightarrow> nat \<times> nat \<Rightarrow> datetime" where
  "combine d t = \<lparr>dt_date = d, dt_hour = fst t, dt_minute = snd t, dt_second = 0\<rparr>"

definition seconds_of :: "datetime \<Rightarrow> int" where
  "seconds_of t = dt_date t * 86400 + int (dt_hour t) * 3600 + int (dt_minute t) * 60 + int (dt_second t)"

text \<open>One row of the table \<open>employees\<close> (\<open>bootstrap_dummy_db\<close>); \<open>manager_email\<close> is nullable.\<close>

record employee =
  id_emp :: int
  name :: string
  email :: string
  role :: string
  department :: string
  date_joined :: int
  location :: string
  level :: string
  manager_email :: "string option"

text \<open>Python exceptions, with \<open>str(e)\<close>.\<close>

datatype error = KeyError string | RuntimeError string | ExternalError string

fun error_str :: "error \<Rightarrow> string" where
  "error_str (KeyError k) = [CHR 0x27] @ k @ [CHR 0x27]"
| "error_str (RuntimeError m) = m"
| "error_str (ExternalError m) = m"

text \<open>
  What a call to an external service does: it returns, it raises the exception class that the
  adapter's \<open>except\<close> clause names (\<open>HttpError\<close> for the Google services,
  \<open>ApiException\<close> for Asana), or it raises anything else.
\<close>

datatype 'a api_result = Returns 'a | RaisesApiError string | RaisesOther string

text \<open>The three SQL statements of \<open>main.py\<close>, with their bound parameter.\<close>

datatype query = SelectNewJoiners int | SelectSeniorAt string | SelectSeniorAny

text \<open>The five nodes of the per-employee graph.\<close>

datatype node =
  generate_email_node | send_email_node | asana_task_node | find_mentor_node | schedule_intro_call_node

record prompt_fields =
  pf_name :: string
  pf_role :: string
  pf_team :: string
  pf_start_date :: int
  pf_manager_email :: string
  pf_location :: string

text \<open>\<open>create_message\<close>: the MIME message, before its base64 encoding.\<close>

record message =
  msg_to :: string
  msg_from :: string
  msg_subject :: string
  msg_text :: string

record reminder =
  rem_method :: string
  rem_minutes :: nat

text \<open>The body \<open>event_details\<close> of \<open>schedule_calendar_event\<close>.\<close>

record event_details =
  ev_summary :: string
  ev_location :: string
  ev_description :: string
  ev_start_dateTime :: string
  ev_start_timeZone :: string
  ev_end_dateTime :: string
  ev_end_timeZone :: string
  ev_attendees :: "string list"
  ev_reminders_useDefault :: bool
  ev_reminders_overrides :: "reminder list"
  ev_requestId :: string
  ev_conferenceSolution :: string

text \<open>The body of \<open>create_task\<close>.\<close>

record task_body =
  tb_name :: string
  tb_assignee :: string
  tb_workspace :: string
  tb_projects :: "string list"

text \<open>
  Every interaction with the outside, in the order it happens. \<open>NodeStart\<close> is the
  graph executor entering a node; all other events are calls made by the code.
\<close>

datatype event =
    SqlConnect
  | SqlExecute query
  | LlmInvoke prompt_fields
  | GoogleAuth string
  | GmailSend string message
  | CalendarInsert event_details
  | AsanaAddUser string string
  | AsanaCreateTask task_body
  | StWrite string
  | StMarkdown string
  | NodeStart node

text \<open>
  The outside world as the code meets it. Every service answers as a function of the whole
  history of events, the call itself being the last one. The payloads a service returns
  (sent-message metadata, task record, calendar event) are opaque strings. \<open>clock\<close> gives
  the successive readings of the wall clock; \<open>isoformat_date\<close> and
  \<open>isoformat_datetime\<close> are Python's \<open>isoformat()\<close>.
\<close>

record env =
  clock :: "nat \<Rightarrow> datetime"
  isoformat_date :: "int \<Rightarrow> string"
  isoformat_datetime :: "datetime \<Rightarrow> string"
  environ :: "string \<Rightarrow> string option"
  sqlite_fault :: "event list \<Rightarrow> string option"
  llm :: "event list \<Rightarrow> string api_result"
  google_auth :: "event list \<Rightarrow> string option"
  gmail_api :: "event list \<Rightarrow> string api_result"
  calendar_api :: "event list \<Rightarrow> string api_result"
  asana_add_user :: "event list \<Rightarrow> unit api_result"
  asana_create_task :: "event list \<Rightarrow> string api_result"

text \<open>
  The state the run threads: the rows of table \<open>employees\<close> in the order in which the
  engine scans them, the events so far, and how often the clock has been read.
\<close>

record world =
  employees :: "employee list"
  trace :: "event list"
  clock_reads :: nat

definition emit :: "event \<Rightarrow> world \<Rightarrow> world" where
  "emit ev w = w\<lparr>trace := trace w @ [ev]\<rparr>"

definition today :: "env \<Rightarrow> world \<Rightarrow> int \<times> world" where
  "today env w = (dt_date (clock env (clock_reads w)), w\<lparr>clock_reads := Suc (clock_reads w)\<rparr>)"

definition now :: "env \<Rightarrow> world \<Rightarrow> datetime \<times> world" where
  "now env w = (clock env (clock_reads w), w\<lparr>clock_reads := Suc (clock_reads w)\<rparr>)"

section \<open>Python string helpers\<close>

definition digit_char :: "nat \<Rightarrow> char" where
  "digit_char d = ''0123456789'' ! d"

fun str_nat :: "nat \<Rightarrow> string" where
  "str_nat n = (if n < 10 then [digit_char n] else str_nat (n div 10) @ [digit_char (n mod 10)])"

declare str_nat.simps [simp del]

definition str_int :: "int \<Rightarrow> string" where
  "str_int i = (if i < 0 then CHR ''-'' # str_nat (nat (- i)) else str_nat (nat i))"

definition is_space :: "char \<Rightarrow> bool" where
  "is_space c = ((of_char c :: nat) \<in> {9, 10, 11, 12, 13, 28, 29, 30, 31, 32, 133, 160})"

definition strip :: "string \<Rightarrow> string" where
  "strip s = rev (dropWhile is_space (rev (dropWhile is_space s)))"

text \<open>\<open>x or default\<close> on an optional string: \<open>None\<close> and the empty string are both falsy.\<close>

definition or_default :: "string option \<Rightarrow> string \<Rightarrow> string" where
  "or_default x d = (case x of None \<Rightarrow> d | Some s \<Rightarrow> if s = [] then d else s)"

section \<open>Query helpers\<close>

text \<open>
  The rows each statement selects from the table. \<open>ORDER BY date(date_joined) ASC LIMIT 1\<close>
  names no second sort key, so among rows of equal date SQL leaves the order to the engine. The
  engine's choice is carried by the scan order of the store: the clause is a stable sort of the
  scanned rows followed by the first row.
\<close>

fun rows_of :: "query \<Rightarrow> employee list \<Rightarrow> employee list" where
  "rows_of (SelectNewJoiners cutoff) tbl =
     filter (\<lambda>r. role r = ''Data Engineer'' \<and> cutoff \<le> date_joined r \<and> level r = ''junior'') tbl"
| "rows_of (SelectSeniorAt loc) tbl =
     take 1 (sort_key date_joined
       (filter (\<lambda>r. role r = ''Data Engineer'' \<and> level r = ''senior'' \<and> location r = loc) tbl))"
| "rows_of SelectSeniorAny tbl =
     take 1 (sort_key date_joined
       (filter (\<lambda>r. role r = ''Data Engineer'' \<and> level r = ''senior'') tbl))"

definition db_conn :: "env \<Rightarrow> world \<Rightarrow> (error + unit) \<times> world" where
  "db_conn env w =
     (let w1 = emit SqlConnect w in
      (case sqlite_fault env (trace w1) of
         Some m \<Rightarrow> (Inl (ExternalError m), w1)
       | None \<Rightarrow> (Inr (), w1)))"

definition execute :: "env \<Rightarrow> world \<Rightarrow> query \<Rightarrow> (error + employee list) \<times> world" where
  "execute env w q =
     (let w1 = emit (SqlExecute q) w in
      (case sqlite_fault env (trace w1) of
         Some m \<Rightarrow> (Inl (ExternalError m), w1)
       | None \<Rightarrow> (Inr (rows_of q (employees w1)), w1)))"

fun fetchone :: "'a list \<Rightarrow> 'a option" where
  "fetchone [] = None"
| "fetchone (r # rs) = Some r"

definition find_new_joiners_data_engineers ::
  "env \<Rightarrow> world \<Rightarrow> int \<Rightarrow> (error + employee list) \<times> world" where
  "find_new_joiners_data_engineers env w joined_since_days =
     (case today env w of (d, w1) \<Rightarrow>
      (let cutoff = d - joined_since_days in
       (case db_conn env w1 of
          (Inl e, w2) \<Rightarrow> (Inl e, w2)
        | (Inr u, w2) \<Rightarrow> execute env w2 (SelectNewJoiners cutoff))))"

definition find_senior_mentor ::
  "env \<Rightarrow> world \<Rightarrow> string \<Rightarrow> (error + employee option) \<times> world" where
  "find_senior_mentor env w preferred_location =
     (case db_conn env w of
        (Inl e, w1) \<Rightarrow> (Inl e, w1)
      | (Inr u, w1) \<Rightarrow>
          (case execute env w1 (SelectSeniorAt preferred_location) of
             (Inl e, w2) \<Rightarrow> (Inl e, w2)
           | (Inr rows, w2) \<Rightarrow>
               (case fetchone rows of
                  Some row \<Rightarrow> (Inr (Some row), w2)
                | None \<Rightarrow>
                    (case execute env w2 SelectSeniorAny of
                       (Inl e, w3) \<Rightarrow> (Inl e, w3)
                     | (Inr rows2, w3) \<Rightarrow> (Inr (fetchone rows2), w3)))))"

section \<open>E-mail generation\<close>

definition generate_welcome_email_content ::
  "env \<Rightarrow> world \<Rightarrow> employee \<Rightarrow> (error + string) \<times> world" where
  "generate_welcome_email_content env w emp =
     (let w1 = emit (LlmInvoke \<lparr>pf_name = name emp, pf_role = role emp,
                 pf_team = department emp, pf_start_date = date_joined emp,
                 pf_manager_email = or_default (manager_email emp) ''hr@company.com'',
                 pf_location = location emp\<rparr>) w in
      (case llm env (trace w1) of
         Returns body \<Rightarrow> (Inr (strip body), w1)
       | RaisesApiError m \<Rightarrow> (Inl (ExternalError m), w1)
       | RaisesOther m \<Rightarrow> (Inl (ExternalError m), w1)))"

section \<open>Gmail and Calendar adapters (\<open>gmail_apis.py\<close>)\<close>

definition get_gmail_service :: "env \<Rightarrow> world \<Rightarrow> (error + unit) \<times> world" where
  "get_gmail_service env w =
     (let w1 = emit (GoogleAuth ''gmail'') w in
      (case google_auth env (trace w1) of
         Some m \<Rightarrow> (Inl (ExternalError m), w1)
       | None \<Rightarrow> (Inr (), w1)))"

definition create_message :: "string \<Rightarrow> string \<Rightarrow> string \<Rightarrow> string \<Rightarrow> message" where
  "create_message sender to subject message_text =
     \<lparr>msg_to = to, msg_from = sender, msg_subject = subject, msg_text = message_text\<rparr>"

definition send_message ::
  "env \<Rightarrow> world \<Rightarrow> string \<Rightarrow> message \<Rightarrow> (error + string option) \<times> world" where
  "send_message env w user_id msg =
     (let w1 = emit (GmailSend user_id msg) w in
      (case gmail_api env (trace w1) of
         Returns sent_message \<Rightarrow> (Inr (Some sent_message), w1)
       | RaisesApiError m \<Rightarrow> (Inr None, w1)
       | RaisesOther m \<Rightarrow> (Inl (ExternalError m), w1)))"

definition send_gmail ::
  "env \<Rightarrow> world \<Rightarrow> string \<Rightarrow> string \<Rightarrow> string \<Rightarrow> string \<Rightarrow> (error + string option) \<times> world" where
  "send_gmail env w sender_email recipient_email subject body =
     (case get_gmail_service env w of
        (Inl e, w1) \<Rightarrow> (Inl e, w1)
      | (Inr service, w1) \<Rightarrow>
          send_message env w1 sender_email (create_message sender_email recipient_email subject body))"

definition get_calendar_service :: "env \<Rightarrow> world \<Rightarrow> (error + unit) \<times> world" where
  "get_calendar_service env w =
     (let w1 = emit (GoogleAuth ''calendar'') w in
      (case google_auth env (trace w1) of
         Some m \<Rightarrow> (Inl (ExternalError m), w1)
       | None \<Rightarrow> (Inr (), w1)))"

definition schedule_calendar_event ::
  "env \<Rightarrow> world \<Rightarrow> string \<Rightarrow> string \<Rightarrow> string \<Rightarrow> string \<Rightarrow> string \<Rightarrow> string list \<Rightarrow> string \<Rightarrow>
     reminder list option \<Rightarrow> string \<Rightarrow> (error + string option) \<times> world" where
  "schedule_calendar_event env w summary loc description start_time_str end_time_str
       attendees_emails timezone reminders conference_request_id =
     (case get_calendar_service env w of
        (Inl e, w1) \<Rightarrow> (Inl e, w1)
      | (Inr service, w1) \<Rightarrow>
          (let details = \<lparr>ev_summary = summary, ev_location = loc, ev_description = description,
                 ev_start_dateTime = start_time_str, ev_start_timeZone = timezone,
                 ev_end_dateTime = end_time_str, ev_end_timeZone = timezone,
                 ev_attendees = attendees_emails,
                 ev_reminders_useDefault = False,
                 ev_reminders_overrides =
                   (case reminders of
                      None \<Rightarrow> [\<lparr>rem_method = ''email'', rem_minutes = 24 * 60\<rparr>,
                                \<lparr>rem_method = ''popup'', rem_minutes = 30\<rparr>]
                    | Some rs \<Rightarrow>
                        if rs = [] then [\<lparr>rem_method = ''email'', rem_minutes = 24 * 60\<rparr>,
                                         \<lparr>rem_method = ''popup'', rem_minutes = 30\<rparr>]
                        else rs),
                 ev_requestId = conference_request_id,
                 ev_conferenceSolution = ''hangoutsMeet''\<rparr>;
               w2 = emit (CalendarInsert details) w1 in
           (case calendar_api env (trace w2) of
              Returns ev \<Rightarrow> (Inr (Some ev), w2)
            | RaisesApiError m \<Rightarrow> (Inr None, w2)
            | RaisesOther m \<Rightarrow> (Inl (ExternalError m), w2))))"

section \<open>Asana adapter (\<open>asana_apis.py\<close>)\<close>

definition invite_user_to_workspace ::
  "env \<Rightarrow> world \<Rightarrow> string \<Rightarrow> string \<Rightarrow> (error + unit) \<times> world" where
  "invite_user_to_workspace env w workspace_gid new_member_email =
     (let w1 = emit (AsanaAddUser workspace_gid new_member_email) w in
      (case asana_add_user env (trace w1) of
         Returns u \<Rightarrow> (Inr (), w1)
       | RaisesApiError m \<Rightarrow> (Inr (), w1)
       | RaisesOther m \<Rightarrow> (Inl (ExternalError m), w1)))"

definition create_task ::
  "env \<Rightarrow> world \<Rightarrow> string \<Rightarrow> string \<Rightarrow> string \<Rightarrow> string \<Rightarrow> (error + string option) \<times> world" where
  "create_task env w workspace_gid project_gid assignee_email task_name =
     (let body = \<lparr>tb_name = task_name, tb_assignee = assignee_email,
                   tb_workspace = workspace_gid, tb_projects = [project_gid]\<rparr>;
          w1 = emit (AsanaCreateTask body) w in
      (case asana_create_task env (trace w1) of
         Returns response \<Rightarrow> (Inr (Some response), w1)
       | RaisesApiError m \<Rightarrow> (Inr None, w1)
       | RaisesOther m \<Rightarrow> (Inl (ExternalError m), w1)))"

definition create_onboarding_tasks ::
  "env \<Rightarrow> world \<Rightarrow> string \<Rightarrow> string \<Rightarrow> string \<Rightarrow> string \<Rightarrow> (error + string option) \<times> world" where
  "create_onboarding_tasks env w workspace_gid project_gid new_member_email task_name =
     (case invite_user_to_workspace env w workspace_gid new_member_email of
        (Inl e, w1) \<Rightarrow> (Inl e, w1)
      | (Inr u, w1) \<Rightarrow> create_task env w1 workspace_gid project_gid new_member_email task_name)"

section \<open>Shared graph state per employee\<close>

text \<open>
  \<open>EmpState\<close> is a \<open>TypedDict\<close> with \<open>total=False\<close>: every key may be absent
  (\<open>None\<close> here). The three adapter results may be stored as Python \<open>None\<close>:
  \<open>Some None\<close> is a key that is present with the value \<open>None\<close>.
\<close>

record EmpState =
  employee :: "employee option"
  email_body :: "string option"
  email_result :: "string option option"
  asana_task :: "string option option"
  mentor :: "employee option"
  calendar_event :: "string option option"
  logs :: "string list option"

definition append_log :: "env \<Rightarrow> world \<Rightarrow> EmpState \<Rightarrow> string \<Rightarrow> EmpState \<times> world" where
  "append_log env w state msg =
     (let logs0 = (case logs state of None \<Rightarrow> [] | Some l \<Rightarrow> l) in
      (case now env w of (t, w1) \<Rightarrow>
         (state\<lparr>logs := Some (logs0 @ [isoformat_datetime env t @ '' | '' @ msg])\<rparr>, w1)))"

section \<open>Graph nodes\<close>

text \<open>
  A node returns the updated state, or it raises. The nodes update the dictionary in place, so
  an exception is paired with the dictionary as it stands at the \<open>raise\<close>.
\<close>

type_synonym node_result = "(error \<times> EmpState) + EmpState"

definition node_generate_email :: "env \<Rightarrow> world \<Rightarrow> EmpState \<Rightarrow> node_result \<times> world" where
  "node_generate_email env w state =
     (case employee state of
        None \<Rightarrow> (Inl (KeyError ''employee'', state), w)
      | Some emp \<Rightarrow>
          (case generate_welcome_email_content env w emp of
             (Inl e, w1) \<Rightarrow> (Inl (e, state), w1)
           | (Inr body, w1) \<Rightarrow>
               (case append_log env w1 (state\<lparr>email_body := Some body\<rparr>)
                       (''Generated email for '' @ email emp) of
                  (state', w2) \<Rightarrow> (Inr state', w2))))"

definition node_send_email :: "env \<Rightarrow> world \<Rightarrow> EmpState \<Rightarrow> node_result \<times> world" where
  "node_send_email env w state =
     (case employee state of
        None \<Rightarrow> (Inl (KeyError ''employee'', state), w)
      | Some emp \<Rightarrow>
          (let subject = ''Welcome to the team, '' @ name emp @ ''!'' in
           (case email_body state of
              None \<Rightarrow> (Inl (KeyError ''email_body'', state), w)
            | Some body \<Rightarrow>
                (case send_gmail env w ''me'' (email emp) subject body of
                   (Inl e, w1) \<Rightarrow> (Inl (e, state), w1)
                 | (Inr res, w1) \<Rightarrow>
                     (case append_log env w1 (state\<lparr>email_result := Some res\<rparr>)
                             (''Sent welcome email to '' @ email emp) of
                        (state', w2) \<Rightarrow> (Inr state', w2))))))"

definition node_asana_task :: "env \<Rightarrow> world \<Rightarrow> EmpState \<Rightarrow> node_result \<times> world" where
  "node_asana_task env w state =
     (case employee state of
        None \<Rightarrow> (Inl (KeyError ''employee'', state), w)
      | Some emp \<Rightarrow>
          (let workspace_gid = (case environ env ''ASANA_WORKSPACE_GID'' of
                                  None \<Rightarrow> ''workspace_dummy'' | Some v \<Rightarrow> v);
               project_gid = (case environ env ''ASANA_PROJECT_GID'' of
                                None \<Rightarrow> ''project_dummy'' | Some v \<Rightarrow> v);
               task_name = ''Onboarding for '' @ name emp @ '' - Data Engineer'' in
           (case create_onboarding_tasks env w workspace_gid project_gid (email emp) task_name of
              (Inl e, w1) \<Rightarrow> (Inl (e, state), w1)
            | (Inr task, w1) \<Rightarrow>
                (case append_log env w1 (state\<lparr>asana_task := Some task\<rparr>)
                        (''Created Asana task for '' @ email emp) of
                   (state', w2) \<Rightarrow> (Inr state', w2)))))"

definition node_find_mentor :: "env \<Rightarrow> world \<Rightarrow> EmpState \<Rightarrow> node_result \<times> world" where
  "node_find_mentor env w state =
     (case employee state of
        None \<Rightarrow> (Inl (KeyError ''employee'', state), w)
      | Some emp \<Rightarrow>
          (case find_senior_mentor env w (location emp) of
             (Inl e, w1) \<Rightarrow> (Inl (e, state), w1)
           | (Inr None, w1) \<Rightarrow>
               (Inl (RuntimeError (''No senior mentor available for '' @ name emp), state), w1)
           | (Inr (Some m), w1) \<Rightarrow>
               (case append_log env w1 (state\<lparr>mentor := Some m\<rparr>)
                       (''Selected mentor '' @ name m @ '' for '' @ email emp) of
                  (state', w2) \<Rightarrow> (Inr state', w2))))"

definition node_schedule_intro_call :: "env \<Rightarrow> world \<Rightarrow> EmpState \<Rightarrow> node_result \<times> world" where
  "node_schedule_intro_call env w state =
     (case employee state of
        None \<Rightarrow> (Inl (KeyError ''employee'', state), w)
      | Some emp \<Rightarrow>
          (case mentor state of
             None \<Rightarrow> (Inl (KeyError ''mentor'', state), w)
           | Some m \<Rightarrow>
               (case today env w of (today_d, w1) \<Rightarrow>
                  (let next_week = today_d + 7;
                       start_dt = combine next_week (10, 0);
                       end_dt = combine next_week (11, 0);
                       summary = ''Intro chat: '' @ name emp @ '' x '' @ name m @ '' (Data Platform)'';
                       loc = ''Google Meet'';
                       description =
                         ''Welcome '' @ name emp @ ''.'' @ [CHR 0x0A] @
                         ''Mentor: '' @ name m @ '' ('' @ email m @ '').'' @ [CHR 0x0A] @
                         ''Agenda: Meet the team, tooling overview, first week goals.'' @ [CHR 0x0A] @
                         ''Manager: '' @ or_default (manager_email emp) ''N/A'' @ ''.'' @ [CHR 0x0A] in
                   (case schedule_calendar_event env w1 summary loc description
                           (isoformat_datetime env start_dt) (isoformat_datetime env end_dt)
                           [email emp, email m] ''Asia/Kolkata''
                           (Some [\<lparr>rem_method = ''popup'', rem_minutes = 30\<rparr>])
                           (''mentor-'' @ str_int (id_emp emp) @ ''-'' @ isoformat_date env next_week) of
                      (Inl e, w2) \<Rightarrow> (Inl (e, state), w2)
                    | (Inr ev, w2) \<Rightarrow>
                        (case append_log env w2 (state\<lparr>calendar_event := Some ev\<rparr>)
                                (''Scheduled mentor call for '' @ email emp) of
                           (state', w3) \<Rightarrow> (Inr state', w3)))))))"

section \<open>Per-employee graph (\<open>build_employee_graph\<close>)\<close>

text \<open>The \<open>add_node\<close> table, the \<open>add_edge\<close> table (\<open>None\<close> is \<open>END\<close>) and the entry point.\<close>

fun graph_node :: "node \<Rightarrow> env \<Rightarrow> world \<Rightarrow> EmpState \<Rightarrow> node_result \<times> world" where
  "graph_node generate_email_node = node_generate_email"
| "graph_node send_email_node = node_send_email"
| "graph_node asana_task_node = node_asana_task"
| "graph_node find_mentor_node = node_find_mentor"
| "graph_node schedule_intro_call_node = node_schedule_intro_call"

fun graph_edge :: "node \<Rightarrow> node option" where
  "graph_edge generate_email_node = Some send_email_node"
| "graph_edge send_email_node = Some asana_task_node"
| "graph_edge asana_task_node = Some find_mentor_node"
| "graph_edge find_mentor_node = Some schedule_intro_call_node"
| "graph_edge schedule_intro_call_node = None"

definition graph_entry_point :: node where
  "graph_entry_point = generate_email_node"

text \<open>Position of a node along the edges; only the termination proof uses it.\<close>

fun node_rank :: "node \<Rightarrow> nat" where
  "node_rank generate_email_node = 0"
| "node_rank send_email_node = 1"
| "node_rank asana_task_node = 2"
| "node_rank find_mentor_node = 3"
| "node_rank schedule_intro_call_node = 4"

text \<open>
  The compiled graph's \<open>invoke\<close>: enter a node, run it on the state, stop with its exception
  if it raises, otherwise follow the node's edge until \<open>END\<close>.
\<close>

function run_from :: "env \<Rightarrow> node \<Rightarrow> world \<Rightarrow> EmpState \<Rightarrow> node_result \<times> world" where
  "run_from env n w state =
     (case graph_node n env (emit (NodeStart n) w) state of
        (Inl raised, w1) \<Rightarrow> (Inl raised, w1)
      | (Inr state', w1) \<Rightarrow>
          (case graph_edge n of
             None \<Rightarrow> (Inr state', w1)
           | Some n' \<Rightarrow> run_from env n' w1 state'))"
  by pat_completeness auto
termination
proof (relation "measure (\<lambda>(env, n, w, state). 5 - node_rank n)")
  show "wf (measure (\<lambda>(env, n, w, state). 5 - node_rank n))"
    by simp
next
  fix env :: env and n n' :: node and w w1 :: world and state state' :: EmpState
  assume "graph_edge n = Some n'"
  then show "((env, n', w1, state'), (env, n, w, state)) \<in> measure (\<lambda>(env, n, w, state). 5 - node_rank n)"
    by (cases n) auto
qed

declare run_from.simps [simp del]

definition invoke :: "env \<Rightarrow> world \<Rightarrow> EmpState \<Rightarrow> node_result \<times> world" where
  "invoke env w state = run_from env graph_entry_point w state"

section \<open>Orchestration\<close>

text \<open>The dictionary \<open>run_onboarding_for_new_joiners\<close> returns; the key \<open>message\<close> is optional.\<close>

record run_result =
  processed :: nat
  successes :: nat
  failures :: "string list"
  message :: "string option"

definition steps_markdown :: string where
  "steps_markdown =
     [CHR 0x0A] @ ''    - Generate welcome email  '' @ [CHR 0x0A] @
     ''    - Send welcome email  '' @ [CHR 0x0A] @
     ''    - Create Asana task  '' @ [CHR 0x0A] @
     ''    - Find mentor  '' @ [CHR 0x0A] @
     ''    - Schedule intro call with mentor'' @ [CHR 0x0A] @ ''    ''"

text \<open>The loop that lists the new joiners on the front end.\<close>

fun write_joiners :: "employee list \<Rightarrow> world \<Rightarrow> world" where
  "write_joiners [] w = w"
| "write_joiners (emp # rest) w =
     write_joiners rest (emit (StWrite (''- '' @ name emp @ '' - '' @ email emp)) w)"

text \<open>
  The per-employee loop, with its two accumulators. \<open>except Exception\<close> catches every member
  of \<open>error\<close>.
\<close>

fun onboard_each ::
  "env \<Rightarrow> employee list \<Rightarrow> world \<Rightarrow> nat \<Rightarrow> string list \<Rightarrow> (nat \<times> string list) \<times> world" where
  "onboard_each env [] w succ fails = ((succ, fails), w)"
| "onboard_each env (emp # rest) w succ fails =
     (let state = \<lparr>employee = Some emp, email_body = None, email_result = None,
                    asana_task = None, mentor = None, calendar_event = None, logs = Some []\<rparr> in
      (case invoke env w state of
         (Inr final, w1) \<Rightarrow> onboard_each env rest w1 (succ + 1) fails
       | (Inl (e, at_raise), w1) \<Rightarrow>
           onboard_each env rest w1 succ (fails @ [email emp @ '': '' @ error_str e])))"

definition run_onboarding_for_new_joiners ::
  "env \<Rightarrow> world \<Rightarrow> int \<Rightarrow> (error + run_result) \<times> world" where
  "run_onboarding_for_new_joiners env w joined_since_days =
     (case find_new_joiners_data_engineers env w joined_since_days of
        (Inl e, w1) \<Rightarrow> (Inl e, w1)
      | (Inr new_joiners, w1) \<Rightarrow>
          if new_joiners = [] then
            (Inr \<lparr>processed = 0, successes = 0, failures = [],
                  message = Some ''No new Data Engineers found''\<rparr>, w1)
          else
            (let w2 = emit (StWrite (''Found '' @ str_nat (length new_joiners) @
                         '' new Data Engineers who joined in the last '' @
                         str_int joined_since_days @ '' days.'')) w1;
                 w3 = emit (StWrite ''Details of new joiners:'') w2;
                 w4 = write_joiners new_joiners w3;
                 w5 = emit (StWrite ''They will be onboarded with the following steps:'') w4;
                 w6 = emit (StMarkdown steps_markdown) w5;
                 w7 = emit (StWrite ''Starting onboarding workflow...'') w6 in
             (case onboard_each env new_joiners w7 0 [] of
                ((succ, fails), w8) \<Rightarrow>
                  (Inr \<lparr>processed = length new_joiners, successes = succ, failures = fails,
                        message = None\<rparr>, w8))))"

section \<open>Vocabulary of the properties\<close>

definition senior_data_engineer :: "employee \<Rightarrow> bool" where
  "senior_data_engineer r \<longleftrightarrow> role r = ''Data Engineer'' \<and> level r = ''senior''"

text \<open>An employee of a set who joined no later than any other of the set.\<close>

definition earliest_among :: "employee set \<Rightarrow> employee \<Rightarrow> bool" where
  "earliest_among S m \<longleftrightarrow> m \<in> S \<and> (\<forall>c \<in> S. date_joined m \<le> date_joined c)"

text \<open>The nodes the executor entered, in order, read off a trace.\<close>

fun nodes_started :: "event list \<Rightarrow> node list" where
  "nodes_started [] = []"
| "nodes_started (NodeStart n # evs) = n # nodes_started evs"
| "nodes_started (ev # evs) = nodes_started evs"

text \<open>The order of the nodes along the edges of the graph, from the entry point.\<close>

definition chain :: "node list" where
  "chain = [generate_email_node, send_email_node, asana_task_node, find_mentor_node,
            schedule_intro_call_node]"

text \<open>The log of a state (\<open>state.get("logs", [])\<close>) and the line \<open>append_log\<close> writes at the
  \<open>k\<close>-th reading of the clock.\<close>

definition logs_of :: "EmpState \<Rightarrow> string list" where
  "logs_of state = (case logs state of None \<Rightarrow> [] | Some l \<Rightarrow> l)"

definition log_line :: "env \<Rightarrow> nat \<Rightarrow> string \<Rightarrow> string" where
  "log_line env k msg = isoformat_datetime env (clock env k) @ '' | '' @ msg"

text \<open>The state the per-employee loop builds for an employee.\<close>

definition initial_state :: "employee \<Rightarrow> EmpState" where
  "initial_state emp = \<lparr>employee = Some emp, email_body = None, email_result = None,
     asana_task = None, mentor = None, calendar_event = None, logs = Some []\<rparr>"

text \<open>
  The per-employee loop as the specification words it: each employee in turn is run on a fresh
  state, to completion or first failure, whatever happened to the employees before; the
  outcomes are listed in order. \<open>world_after\<close> is the world the last run leaves.
\<close>

fun outcomes :: "env \<Rightarrow> employee list \<Rightarrow> world \<Rightarrow> (employee \<times> node_result) list" where
  "outcomes env [] w = []"
| "outcomes env (emp # rest) w =
     (emp, fst (invoke env w (initial_state emp))) #
       outcomes env rest (snd (invoke env w (initial_state emp)))"

fun world_after :: "env \<Rightarrow> employee list \<Rightarrow> world \<Rightarrow> world" where
  "world_after env [] w = w"
| "world_after env (emp # rest) w = world_after env rest (snd (invoke env w (initial_state emp)))"

text \<open>The failure descriptors (employee address and reason) and the number of completed runs
  of a list of outcomes.\<close>

fun failure_descriptors :: "(employee \<times> node_result) list \<Rightarrow> string list" where
  "failure_descriptors [] = []"
| "failure_descriptors ((emp, Inl (e, at_raise)) # rest) =
     (email emp @ '': '' @ error_str e) # failure_descriptors rest"
| "failure_descriptors ((emp, Inr final) # rest) = failure_descriptors rest"

fun completed :: "(employee \<times> node_result) list \<Rightarrow> nat" where
  "completed [] = 0"
| "completed ((emp, Inl e) # rest) = completed rest"
| "completed ((emp, Inr final) # rest) = Suc (completed rest)"

text \<open>The dictionary a step leaves behind, whether it returned or raised, and whether its log
  has exactly one entry more than before the step.\<close>

fun state_after :: "node_result \<Rightarrow> EmpState" where
  "state_after (Inr state') = state'"
| "state_after (Inl (e, at_raise)) = at_raise"

definition appended_one_entry :: "EmpState \<Rightarrow> node_result \<Rightarrow> bool" where
  "appended_one_entry state r \<longleftrightarrow>
     length (logs_of (state_after r)) = Suc (length (logs_of state))"

section \<open>Example data\<close>

text \<open>
  The rows seeded by \<open>bootstrap_dummy_db\<close>, for the day of ordinal 739000, and an outside
  world in which every service answers. The two \<open>isoformat\<close> stand-ins print the ordinal.
\<close>

definition kaushal :: employee where
  "kaushal = \<lparr>id_emp = 1, name = ''Kaushal Vachhani'', email = ''kaushal.vachhani@example.com'',
     role = ''Data Engineer'', department = ''Data Platform'', date_joined = 739000,
     location = ''Bengaluru'', level = ''junior'', manager_email = Some ''lead.de@example.com''\<rparr>"

definition asha :: employee where
  "asha = \<lparr>id_emp = 2, name = ''Asha Patel'', email = ''asha.patel@example.com'',
     role = ''Data Engineer'', department = ''Data Platform'', date_joined = 738900,
     location = ''Bengaluru'', level = ''junior'', manager_email = Some ''lead.de@example.com''\<rparr>"

definition neeraj :: employee where
  "neeraj = \<lparr>id_emp = 3, name = ''Neeraj Singh'', email = ''neeraj.singh@example.com'',
     role = ''Data Engineer'', department = ''Data Platform'', date_joined = 738600,
     location = ''Bengaluru'', level = ''senior'', manager_email = Some ''director.de@example.com''\<rparr>"

definition sneha :: employee where
  "sneha = \<lparr>id_emp = 4, name = ''Sneha Rao'', email = ''sneha.rao@example.com'',
     role = ''Data Engineer'', department = ''Data Platform'', date_joined = 738100,
     location = ''Pune'', level = ''senior'', manager_email = Some ''director.de@example.com''\<rparr>"

definition karan :: employee where
  "karan = \<lparr>id_emp = 5, name = ''Karan Shah'', email = ''karan.shah@example.com'',
     role = ''Backend Engineer'', department = ''App Eng'', date_joined = 738993,
     location = ''Bengaluru'', level = ''junior'', manager_email = Some ''lead.be@example.com''\<rparr>"

definition ex_stamp :: "datetime \<Rightarrow> string" where
  "ex_stamp t = str_int (dt_date t) @ ''T'' @ str_nat (dt_hour t) @ '':'' @
     str_nat (dt_minute t) @ '':'' @ str_nat (dt_second t)"

definition ex_env :: env where
  "ex_env = \<lparr>clock = (\<lambda>k. \<lparr>dt_date = 739000, dt_hour = 9, dt_minute = 30, dt_second = k\<rparr>),
     isoformat_date = str_int, isoformat_datetime = ex_stamp,
     environ = (\<lambda>k. None), sqlite_fault = (\<lambda>h. None),
     llm = (\<lambda>h. Returns '' <p>Welcome</p> ''), google_auth = (\<lambda>h. None),
     gmail_api = (\<lambda>h. Returns ''msg-1''), calendar_api = (\<lambda>h. Returns ''evt-1''),
     asana_add_user = (\<lambda>h. Returns ()), asana_create_task = (\<lambda>h. Returns ''task-1'')\<rparr>"

definition ex_world :: world where
  "ex_world = \<lparr>employees = [kaushal, asha, neeraj, sneha, karan], trace = [], clock_reads = 0\<rparr>"

text \<open>A store without any senior, and a store where two seniors of one location share the
  earliest join date, scanned in two orders.\<close>

definition juniors_world :: world where
  "juniors_world = \<lparr>employees = [kaushal, asha, karan], trace = [], clock_reads = 0\<rparr>"

definition meera :: employee where
  "meera = \<lparr>id_emp = 6, name = ''Meera Iyer'', email = ''meera.iyer@example.com'',
     role = ''Data Engineer'', department = ''Data Platform'', date_joined = 738600,
     location = ''Bengaluru'', level = ''senior'', manager_email = None\<rparr>"

definition tie_world :: world where
  "tie_world = \<lparr>employees = [kaushal, neeraj, meera], trace = [], clock_reads = 0\<rparr>"

definition rescanned_world :: world where
  "rescanned_world = \<lparr>employees = [kaushal, meera, neeraj], trace = [], clock_reads = 0\<rparr>"

text \<open>The seeded store listed in the opposite order, seen by a second run at another time.\<close>

definition later_world :: world where
  "later_world = \<lparr>employees = [karan, sneha, neeraj, asha, kaushal],
     trace = [StWrite ''again''], clock_reads = 7\<rparr>"

definition later_env :: env where
  "later_env = ex_env\<lparr>clock := (\<lambda>k. \<lparr>dt_date = 739400, dt_hour = 17, dt_minute = 5, dt_second = 0\<rparr>),
     gmail_api := (\<lambda>h. RaisesOther ''offline'')\<rparr>"

text \<open>An outside world where Gmail answers every send with \<open>HttpError\<close> and Asana every task
  creation with \<open>ApiException\<close>.\<close>

definition failing_env :: env where
  "failing_env = ex_env\<lparr>gmail_api := (\<lambda>h. RaisesApiError ''HttpError 503''),
     asana_create_task := (\<lambda>h. RaisesApiError ''ApiException 403'')\<rparr>"

text \<open>The state of the first seeded employee once a message has been drafted.\<close>

definition drafted_state :: EmpState where
  "drafted_state = (initial_state kaushal)\<lparr>email_body := Some ''<p>Welcome</p>''\<rparr>"

text \<open>A store without new joiners, and the state of the first seeded employee once a mentor
  has been selected.\<close>

definition seniors_world :: world where
  "seniors_world = \<lparr>employees = [asha, neeraj, sneha, karan], trace = [], clock_reads = 0\<rparr>"

definition mentored_state :: EmpState where
  "mentored_state = (initial_state kaushal)\<lparr>mentor := Some neeraj\<rparr>"

text \<open>An outside world where Gmail drops the connection whenever the recipient is the second
  seeded employee.\<close>

definition flaky_env :: env where
  "flaky_env = ex_env\<lparr>gmail_api := (\<lambda>h. case last h of
       GmailSend u m \<Rightarrow> if msg_to m = ''asha.patel@example.com''
                         then RaisesOther ''connection reset'' else Returns ''msg-1''
     | _ \<Rightarrow> Returns ''msg-1'')\<rparr>"

text \<open>An outside world whose wall clock is set back by an hour after its second reading.\<close>

definition set_back_env :: env where
  "set_back_env = ex_env\<lparr>clock := (\<lambda>k. \<lparr>dt_date = 739000, dt_hour = (if k < 2 then 2 else 1),
     dt_minute = 30, dt_second = k\<rparr>)\<rparr>"

text \<open>A store with no senior at the first seeded employee's location, and the same store after
  that employee's row has been updated to level "senior".\<close>

definition before_world :: world where
  "before_world = \<lparr>employees = [kaushal, asha, sneha, karan], trace = [], clock_reads = 0\<rparr>"

definition promoted_world :: world where
  "promoted_world = \<lparr>employees = [kaushal\<lparr>level := ''senior''\<rparr>, asha, sneha, karan],
     trace = [], clock_reads = 1\<rparr>"

section \<open>The world after the basic operations\<close>

lemma employees_emit [simp]: "employees (emit ev w) = employees w"
  by (simp add: emit_def)

lemma trace_emit [simp]: "trace (emit ev w) = trace w @ [ev]"
  by (simp add: emit_def)

lemma clock_reads_emit [simp]: "clock_reads (emit ev w) = clock_reads w"
  by (simp add: emit_def)

lemma db_conn_cases:
  "db_conn env w = (r, w') \<Longrightarrow> w' = emit SqlConnect w"
  by (auto simp: db_conn_def Let_def split: option.splits)

lemma execute_cases:
  "execute env w q = (r, w') \<Longrightarrow>
     w' = emit (SqlExecute q) w \<and> (\<forall>rows. r = Inr rows \<longrightarrow> rows = rows_of q (employees w))"
  by (auto simp: execute_def Let_def split: option.splits)

lemma nodes_started_append [simp]:
  "nodes_started (xs @ ys) = nodes_started xs @ nodes_started ys"
  by (induction xs rule: nodes_started.induct) simp_all

section \<open>The two queries\<close>

lemma fst_sndI: "fst p = a \<Longrightarrow> p = (a, snd p)"
  by (cases p) simp

lemma find_new_joiners_result:
  "fst (find_new_joiners_data_engineers env w W) = Inr rows \<Longrightarrow>
     rows = rows_of (SelectNewJoiners (dt_date (clock env (clock_reads w)) - W)) (employees w)"
  by (simp add: find_new_joiners_data_engineers_def today_def db_conn_def execute_def Let_def
           split: option.splits)

lemma find_new_joiners_store:
  "employees (snd (find_new_joiners_data_engineers env w W)) = employees w"
  by (simp add: find_new_joiners_data_engineers_def today_def db_conn_def execute_def Let_def
           split: option.splits)

lemma find_new_joiners_trace:
  "fst (find_new_joiners_data_engineers env w W) = Inr rows \<Longrightarrow>
     trace (snd (find_new_joiners_data_engineers env w W)) =
       trace w @ [SqlConnect, SqlExecute (SelectNewJoiners (dt_date (clock env (clock_reads w)) - W))]"
  by (simp add: find_new_joiners_data_engineers_def today_def db_conn_def execute_def Let_def
           split: option.splits)

lemma find_new_joiners_returns:
  "(\<And>h. sqlite_fault env h = None) \<Longrightarrow>
     fst (find_new_joiners_data_engineers env w W) =
       Inr (rows_of (SelectNewJoiners (dt_date (clock env (clock_reads w)) - W)) (employees w))"
  by (simp add: find_new_joiners_data_engineers_def today_def db_conn_def execute_def Let_def)

lemma fetchone_first_by_key:
  fixes f :: "'a \<Rightarrow> int"
  assumes a: "fetchone (take 1 (sort_key f xs)) = Some m"
  shows "m \<in> set xs \<and> (\<forall>c \<in> set xs. f m \<le> f c)"
proof -
  from a obtain rest where s: "sort_key f xs = m # rest"
    by (cases "sort_key f xs") auto
  have "sorted (map f (sort_key f xs))" by (rule sorted_sort_key)
  with s have "\<forall>c \<in> set rest. f m \<le> f c" by simp
  moreover have "set xs = set (m # rest)" using s set_sort [of f xs] by simp
  ultimately show ?thesis by auto
qed

lemma fetchone_none_iff:
  fixes f :: "'a \<Rightarrow> int"
  shows "fetchone (take 1 (sort_key f xs)) = None \<longleftrightarrow> xs = []"
proof (cases "sort_key f xs")
  case Nil
  then have "length xs = 0" using length_sort [of f xs] by simp
  with Nil show ?thesis by simp
next
  case (Cons a as)
  then have "xs \<noteq> []" by auto
  with Cons show ?thesis by simp
qed

lemma find_senior_mentor_result:
  "fst (find_senior_mentor env w loc) = Inr res \<Longrightarrow>
     res = (case fetchone (rows_of (SelectSeniorAt loc) (employees w)) of
              Some row \<Rightarrow> Some row
            | None \<Rightarrow> fetchone (rows_of SelectSeniorAny (employees w)))"
  by (auto simp add: find_senior_mentor_def db_conn_def execute_def Let_def simp del: rows_of.simps
           split: option.splits)

lemma find_senior_mentor_world:
  "nodes_started (trace (snd (find_senior_mentor env w loc))) = nodes_started (trace w) \<and>
   employees (snd (find_senior_mentor env w loc)) = employees w \<and>
   clock_reads (snd (find_senior_mentor env w loc)) = clock_reads w"
  by (simp add: find_senior_mentor_def db_conn_def execute_def Let_def del: rows_of.simps
           split: option.splits)

lemma find_senior_mentor_returns:
  "(\<And>h. sqlite_fault env h = None) \<Longrightarrow> \<exists>res. fst (find_senior_mentor env w loc) = Inr res"
  by (simp add: find_senior_mentor_def db_conn_def execute_def Let_def split: option.splits)

lemma select_senior_at_some:
  assumes "fetchone (rows_of (SelectSeniorAt loc) tbl) = Some m"
  shows "m \<in> set tbl \<and> senior_data_engineer m \<and> location m = loc \<and>
         (\<forall>c \<in> set tbl. senior_data_engineer c \<and> location c = loc \<longrightarrow> date_joined m \<le> date_joined c)"
proof -
  let ?P = "\<lambda>r. role r = ''Data Engineer'' \<and> level r = ''senior'' \<and> location r = loc"
  from assms have "fetchone (take 1 (sort_key date_joined (filter ?P tbl))) = Some m"
    by (simp only: rows_of.simps)
  then have "m \<in> set (filter ?P tbl) \<and> (\<forall>c \<in> set (filter ?P tbl). date_joined m \<le> date_joined c)"
    by (rule fetchone_first_by_key)
  then show ?thesis by (auto simp: senior_data_engineer_def)
qed

lemma select_senior_at_none:
  "fetchone (rows_of (SelectSeniorAt loc) tbl) = None \<longleftrightarrow>
     \<not> (\<exists>c \<in> set tbl. senior_data_engineer c \<and> location c = loc)"
proof -
  let ?P = "\<lambda>r. role r = ''Data Engineer'' \<and> level r = ''senior'' \<and> location r = loc"
  have "fetchone (rows_of (SelectSeniorAt loc) tbl) = None \<longleftrightarrow> filter ?P tbl = []"
    by (simp only: rows_of.simps fetchone_none_iff)
  then show ?thesis by (auto simp: filter_empty_conv senior_data_engineer_def)
qed

lemma select_senior_any_some:
  assumes "fetchone (rows_of SelectSeniorAny tbl) = Some m"
  shows "m \<in> set tbl \<and> senior_data_engineer m \<and>
         (\<forall>c \<in> set tbl. senior_data_engineer c \<longrightarrow> date_joined m \<le> date_joined c)"
proof -
  let ?P = "\<lambda>r. role r = ''Data Engineer'' \<and> level r = ''senior''"
  from assms have "fetchone (take 1 (sort_key date_joined (filter ?P tbl))) = Some m"
    by (simp only: rows_of.simps)
  then have "m \<in> set (filter ?P tbl) \<and> (\<forall>c \<in> set (filter ?P tbl). date_joined m \<le> date_joined c)"
    by (rule fetchone_first_by_key)
  then show ?thesis by (auto simp: senior_data_engineer_def)
qed

lemma select_senior_any_none:
  "fetchone (rows_of SelectSeniorAny tbl) = None \<longleftrightarrow> \<not> (\<exists>c \<in> set tbl. senior_data_engineer c)"
proof -
  let ?P = "\<lambda>r. role r = ''Data Engineer'' \<and> level r = ''senior''"
  have "fetchone (rows_of SelectSeniorAny tbl) = None \<longleftrightarrow> filter ?P tbl = []"
    by (simp only: rows_of.simps fetchone_none_iff)
  then show ?thesis by (auto simp: filter_empty_conv senior_data_engineer_def)
qed

lemma mentor_found_is_senior:
  assumes "fst (find_senior_mentor env w loc) = Inr (Some m)"
  shows "m \<in> set (employees w) \<and> senior_data_engineer m"
proof -
  let ?at = "fetchone (rows_of (SelectSeniorAt loc) (employees w))"
  let ?any = "fetchone (rows_of SelectSeniorAny (employees w))"
  from assms have res: "Some m = (case ?at of Some row \<Rightarrow> Some row | None \<Rightarrow> ?any)"
    by (rule find_senior_mentor_result)
  show ?thesis
  proof (cases ?at)
    case None
    with res have "?any = Some m" by simp
    then show ?thesis using select_senior_any_some by blast
  next
    case (Some row)
    with res have "?at = Some m" by simp
    then show ?thesis using select_senior_at_some by blast
  qed
qed

lemma node_find_mentor_none:
  "employee state = Some emp \<Longrightarrow> fst (find_senior_mentor env w (location emp)) = Inr None \<Longrightarrow>
     fst (node_find_mentor env w state) =
       Inl (RuntimeError (''No senior mentor available for '' @ name emp), state)"
  by (cases "find_senior_mentor env w (location emp)") (simp add: node_find_mentor_def)

lemma unique_earliest_single:
  "S = {m} \<Longrightarrow> \<forall>a b. earliest_among S a \<and> earliest_among S b \<longrightarrow> a = b"
  by (simp add: earliest_among_def)

lemma unique_earliest_pair:
  "S = {m, n} \<Longrightarrow> date_joined n < date_joined m \<Longrightarrow>
     \<forall>a b. earliest_among S a \<and> earliest_among S b \<longrightarrow> a = b"
  by (auto simp: earliest_among_def)

section \<open>What a node does to the world and to the log\<close>

lemma find_senior_mentor_worldD:
  "find_senior_mentor env w loc = (r, w') \<Longrightarrow>
     fst (find_senior_mentor env w loc) = r \<and>
     nodes_started (trace w') = nodes_started (trace w) \<and> employees w' = employees w \<and>
     clock_reads w' = clock_reads w"
  using find_senior_mentor_world [of env w loc] by simp

lemma generate_welcome_email_content_world:
  "generate_welcome_email_content env w emp = (r, w') \<Longrightarrow>
     nodes_started (trace w') = nodes_started (trace w) \<and> employees w' = employees w \<and>
     clock_reads w' = clock_reads w"
  by (auto simp: generate_welcome_email_content_def Let_def split: api_result.splits)

lemma send_gmail_world:
  "send_gmail env w a b c d = (r, w') \<Longrightarrow>
     nodes_started (trace w') = nodes_started (trace w) \<and> employees w' = employees w \<and>
     clock_reads w' = clock_reads w"
  by (auto simp: send_gmail_def get_gmail_service_def send_message_def Let_def
           split: api_result.splits option.splits)

lemma create_onboarding_tasks_world:
  "create_onboarding_tasks env w a b c d = (r, w') \<Longrightarrow>
     nodes_started (trace w') = nodes_started (trace w) \<and> employees w' = employees w \<and>
     clock_reads w' = clock_reads w"
  by (auto simp: create_onboarding_tasks_def invite_user_to_workspace_def create_task_def Let_def
           split: api_result.splits)

lemma schedule_calendar_event_world:
  "schedule_calendar_event env w a b c d e f g h i = (r, w') \<Longrightarrow>
     nodes_started (trace w') = nodes_started (trace w) \<and> employees w' = employees w \<and>
     clock_reads w' = clock_reads w"
  by (auto simp: schedule_calendar_event_def get_calendar_service_def Let_def
           split: api_result.splits option.splits)

lemma append_log_effect:
  "append_log env w state msg = (state', w') \<Longrightarrow>
     state' = state\<lparr>logs := Some (logs_of state @ [log_line env (clock_reads w) msg])\<rparr> \<and>
     w' = w\<lparr>clock_reads := Suc (clock_reads w)\<rparr>"
  by (auto simp: append_log_def now_def logs_of_def log_line_def Let_def)

lemma node_generate_email_effect:
  assumes "node_generate_email env w state = (r, w')"
  shows "nodes_started (trace w') = nodes_started (trace w) \<and> employees w' = employees w \<and>
     (\<forall>e at_raise. r = Inl (e, at_raise) \<longrightarrow> at_raise = state) \<and>
     (\<forall>state'. r = Inr state' \<longrightarrow>
        (\<exists>emp. employee state = Some emp \<and> employee state' = Some emp \<and>
           logs state' = Some (logs_of state @
              [log_line env (clock_reads w) (''Generated email for '' @ email emp)]) \<and>
           clock_reads w' = Suc (clock_reads w)))"
  using assms
  by (auto simp: node_generate_email_def logs_of_def
           split: option.splits prod.splits sum.splits
           dest!: generate_welcome_email_content_world append_log_effect)

lemma node_send_email_effect:
  assumes "node_send_email env w state = (r, w')"
  shows "nodes_started (trace w') = nodes_started (trace w) \<and> employees w' = employees w \<and>
     (\<forall>e at_raise. r = Inl (e, at_raise) \<longrightarrow> at_raise = state) \<and>
     (\<forall>state'. r = Inr state' \<longrightarrow>
        (\<exists>emp. employee state = Some emp \<and> employee state' = Some emp \<and>
           logs state' = Some (logs_of state @
              [log_line env (clock_reads w) (''Sent welcome email to '' @ email emp)]) \<and>
           clock_reads w' = Suc (clock_reads w)))"
  using assms
  by (auto simp: node_send_email_def Let_def logs_of_def
           split: option.splits prod.splits sum.splits
           dest!: send_gmail_world append_log_effect)

lemma node_asana_task_effect:
  assumes "node_asana_task env w state = (r, w')"
  shows "nodes_started (trace w') = nodes_started (trace w) \<and> employees w' = employees w \<and>
     (\<forall>e at_raise. r = Inl (e, at_raise) \<longrightarrow> at_raise = state) \<and>
     (\<forall>state'. r = Inr state' \<longrightarrow>
        (\<exists>emp. employee state = Some emp \<and> employee state' = Some emp \<and>
           logs state' = Some (logs_of state @
              [log_line env (clock_reads w) (''Created Asana task for '' @ email emp)]) \<and>
           clock_reads w' = Suc (clock_reads w)))"
  using assms
  by (auto simp: node_asana_task_def Let_def logs_of_def
           split: option.splits prod.splits sum.splits
           dest!: create_onboarding_tasks_world append_log_effect)

lemma node_find_mentor_effect:
  assumes "node_find_mentor env w state = (r, w')"
  shows "nodes_started (trace w') = nodes_started (trace w) \<and> employees w' = employees w \<and>
     (\<forall>e at_raise. r = Inl (e, at_raise) \<longrightarrow> at_raise = state) \<and>
     (\<forall>state'. r = Inr state' \<longrightarrow>
        (\<exists>emp m. employee state = Some emp \<and> employee state' = Some emp \<and>
           fst (find_senior_mentor env w (location emp)) = Inr (Some m) \<and> mentor state' = Some m \<and>
           logs state' = Some (logs_of state @
              [log_line env (clock_reads w) (''Selected mentor '' @ name m @ '' for '' @ email emp)]) \<and>
           clock_reads w' = Suc (clock_reads w)))"
  using assms
  by (auto simp: node_find_mentor_def logs_of_def
           split: option.splits prod.splits sum.splits
           dest!: find_senior_mentor_worldD append_log_effect)

lemma node_schedule_intro_call_effect:
  assumes "node_schedule_intro_call env w state = (r, w')"
  shows "nodes_started (trace w') = nodes_started (trace w) \<and> employees w' = employees w \<and>
     (\<forall>e at_raise. r = Inl (e, at_raise) \<longrightarrow> at_raise = state) \<and>
     (\<forall>state'. r = Inr state' \<longrightarrow>
        (\<exists>emp m. employee state = Some emp \<and> employee state' = Some emp \<and> mentor state = Some m \<and>
           logs state' = Some (logs_of state @
              [log_line env (Suc (clock_reads w)) (''Scheduled mentor call for '' @ email emp)]) \<and>
           clock_reads w' = Suc (Suc (clock_reads w))))"
  using assms
  by (auto simp: node_schedule_intro_call_def today_def Let_def logs_of_def
           split: option.splits prod.splits sum.splits
           dest!: schedule_calendar_event_world append_log_effect)

text \<open>The calls a node has made when it returns.\<close>

lemma node_generate_email_trace:
  assumes "node_generate_email env w state = (Inr state', w')"
  shows "\<exists>emp f. employee state = Some emp \<and> pf_name f = name emp \<and>
           trace w' = trace w @ [LlmInvoke f]"
  using assms
  by (auto simp: node_generate_email_def generate_welcome_email_content_def append_log_def
        now_def Let_def split: option.splits api_result.splits)

lemma node_send_email_trace:
  assumes "node_send_email env w state = (Inr state', w')"
  shows "\<exists>emp m. employee state = Some emp \<and> msg_to m = email emp \<and>
           trace w' = trace w @ [GoogleAuth ''gmail'', GmailSend ''me'' m]"
  using assms
  by (auto simp: node_send_email_def send_gmail_def get_gmail_service_def send_message_def
        create_message_def append_log_def now_def Let_def
        split: option.splits api_result.splits)

lemma node_asana_task_trace:
  assumes "node_asana_task env w state = (Inr state', w')"
  shows "\<exists>emp ws tb. employee state = Some emp \<and> tb_assignee tb = email emp \<and>
           trace w' = trace w @ [AsanaAddUser ws (email emp), AsanaCreateTask tb]"
  using assms
  by (auto simp: node_asana_task_def create_onboarding_tasks_def invite_user_to_workspace_def
        create_task_def append_log_def now_def Let_def
        split: option.splits api_result.splits)

lemma node_find_mentor_trace:
  assumes "node_find_mentor env w state = (Inr state', w')"
  shows "\<exists>emp fb. employee state = Some emp \<and> (fb = [] \<or> fb = [SqlExecute SelectSeniorAny]) \<and>
           trace w' = trace w @ [SqlConnect, SqlExecute (SelectSeniorAt (location emp))] @ fb"
  using assms
  by (auto simp: node_find_mentor_def find_senior_mentor_def db_conn_def execute_def
        append_log_def now_def Let_def simp del: rows_of.simps
        split: option.splits)

lemma node_schedule_intro_call_trace:
  assumes "node_schedule_intro_call env w state = (Inr state', w')"
  shows "\<exists>emp m d. employee state = Some emp \<and> mentor state = Some m \<and>
           mentor state' = Some m \<and> ev_attendees d = [email emp, email m] \<and>
           trace w' = trace w @ [GoogleAuth ''calendar'', CalendarInsert d]"
  using assms
  by (auto simp: node_schedule_intro_call_def schedule_calendar_event_def
        get_calendar_service_def today_def append_log_def now_def Let_def
        split: option.splits api_result.splits)

lemma graph_node_world:
  assumes "graph_node n env w state = (r, w')"
  shows "nodes_started (trace w') = nodes_started (trace w) \<and> employees w' = employees w"
proof (cases n)
  case generate_email_node
  with assms show ?thesis using node_generate_email_effect [of env w state r w'] by simp
next
  case send_email_node
  with assms show ?thesis using node_send_email_effect [of env w state r w'] by simp
next
  case asana_task_node
  with assms show ?thesis using node_asana_task_effect [of env w state r w'] by simp
next
  case find_mentor_node
  with assms show ?thesis using node_find_mentor_effect [of env w state r w'] by simp
next
  case schedule_intro_call_node
  with assms show ?thesis using node_schedule_intro_call_effect [of env w state r w'] by simp
qed

section \<open>Walking the graph\<close>

lemma edge_some_chain:
  "graph_edge n = Some n' \<Longrightarrow> drop (node_rank n) chain = n # drop (node_rank n') chain"
  by (cases n) (auto simp: chain_def)

lemma edge_none_chain:
  "graph_edge n = None \<Longrightarrow> drop (node_rank n) chain = [n]"
  by (cases n) (auto simp: chain_def)

lemma run_from_raise:
  assumes "fst (graph_node n env (emit (NodeStart n) w) state) = Inl e"
  shows "run_from env n w state = graph_node n env (emit (NodeStart n) w) state"
  using assms
  by (cases "graph_node n env (emit (NodeStart n) w) state") (simp add: run_from.simps)

lemma run_from_return:
  assumes "graph_node n env (emit (NodeStart n) w) state = (Inr state', w1)"
  shows "run_from env n w state =
     (case graph_edge n of None \<Rightarrow> (Inr state', w1) | Some n' \<Rightarrow> run_from env n' w1 state')"
  using assms by (simp add: run_from.simps)

lemma run_from_nodes:
  "run_from env n w state = (r, w') \<Longrightarrow>
     employees w' = employees w \<and>
     (\<exists>k. 1 \<le> k \<and> k \<le> length (drop (node_rank n) chain) \<and>
        nodes_started (trace w') = nodes_started (trace w) @ take k (drop (node_rank n) chain) \<and>
        (\<forall>final. r = Inr final \<longrightarrow> k = length (drop (node_rank n) chain)))"
proof (induction env n w state arbitrary: r w' rule: run_from.induct)
  case (1 env n w state)
  obtain r1 w1 where g: "graph_node n env (emit (NodeStart n) w) state = (r1, w1)"
    by (cases "graph_node n env (emit (NodeStart n) w) state") auto
  from graph_node_world [OF g]
  have w1: "nodes_started (trace w1) = nodes_started (trace w) @ [n]" "employees w1 = employees w"
    by simp_all
  have hd: "take 1 (drop (node_rank n) chain) = [n]" "1 \<le> length (drop (node_rank n) chain)"
    by (cases n; simp add: chain_def)+
  show ?case
  proof (cases r1)
    case (Inl e)
    with g have "run_from env n w state = (Inl e, w1)"
      using run_from_raise [of n env w state e] by simp
    with "1.prems" have "r = Inl e" "w' = w1" by simp_all
    with w1 hd show ?thesis by (intro conjI exI [of _ 1]) simp_all
  next
    case (Inr state')
    note g' = g [unfolded Inr]
    show ?thesis
    proof (cases "graph_edge n")
      case None
      with run_from_return [OF g'] "1.prems" have "r = Inr state'" "w' = w1" by simp_all
      with w1 hd edge_none_chain [OF None] show ?thesis by (intro conjI exI [of _ 1]) simp_all
    next
      case (Some n')
      with run_from_return [OF g'] "1.prems" have rest: "run_from env n' w1 state' = (r, w')"
        by simp
      from "1.IH" [OF g [symmetric] Inr Some rest] obtain k where
        k: "employees w' = employees w1" "1 \<le> k" "k \<le> length (drop (node_rank n') chain)"
           "nodes_started (trace w') = nodes_started (trace w1) @ take k (drop (node_rank n') chain)"
           "\<forall>final. r = Inr final \<longrightarrow> k = length (drop (node_rank n') chain)"
        by blast
      from k w1 edge_some_chain [OF Some] show ?thesis
        by (intro conjI exI [of _ "Suc k"]) simp_all
    qed
  qed
qed

lemma run_from_generate_email:
  "run_from env generate_email_node w state =
     (case node_generate_email env (emit (NodeStart generate_email_node) w) state of
        (Inl e, w1) \<Rightarrow> (Inl e, w1)
      | (Inr state', w1) \<Rightarrow> run_from env send_email_node w1 state')"
  by (subst run_from.simps) (simp split: prod.splits sum.splits)

lemma run_from_send_email:
  "run_from env send_email_node w state =
     (case node_send_email env (emit (NodeStart send_email_node) w) state of
        (Inl e, w1) \<Rightarrow> (Inl e, w1)
      | (Inr state', w1) \<Rightarrow> run_from env asana_task_node w1 state')"
  by (subst run_from.simps) (simp split: prod.splits sum.splits)

lemma run_from_asana_task:
  "run_from env asana_task_node w state =
     (case node_asana_task env (emit (NodeStart asana_task_node) w) state of
        (Inl e, w1) \<Rightarrow> (Inl e, w1)
      | (Inr state', w1) \<Rightarrow> run_from env find_mentor_node w1 state')"
  by (subst run_from.simps) (simp split: prod.splits sum.splits)

lemma run_from_find_mentor:
  "run_from env find_mentor_node w state =
     (case node_find_mentor env (emit (NodeStart find_mentor_node) w) state of
        (Inl e, w1) \<Rightarrow> (Inl e, w1)
      | (Inr state', w1) \<Rightarrow> run_from env schedule_intro_call_node w1 state')"
  by (subst run_from.simps) (simp split: prod.splits sum.splits)

lemma run_from_schedule_intro_call:
  "run_from env schedule_intro_call_node w state =
     node_schedule_intro_call env (emit (NodeStart schedule_intro_call_node) w) state"
  by (subst run_from.simps) (simp split: prod.splits sum.splits)

lemmas run_from_unfold = run_from_generate_email run_from_send_email run_from_asana_task
  run_from_find_mentor run_from_schedule_intro_call

text \<open>The definitions a concrete run is evaluated with.\<close>

lemmas step_defs = invoke_def graph_entry_point_def
  node_generate_email_def generate_welcome_email_content_def
  node_send_email_def send_gmail_def get_gmail_service_def create_message_def send_message_def
  node_asana_task_def create_onboarding_tasks_def invite_user_to_workspace_def create_task_def
  node_find_mentor_def find_senior_mentor_def db_conn_def execute_def
  node_schedule_intro_call_def schedule_calendar_event_def get_calendar_service_def
  append_log_def now_def today_def emit_def Let_def initial_state_def

lemmas ex_defs = ex_env_def ex_world_def kaushal_def asha_def neeraj_def sneha_def karan_def

section \<open>Runs that return, and the loop\<close>

lemma run_from_Inr_step:
  assumes "run_from env n w state = (Inr final, w')"
  shows "\<exists>state' w1. graph_node n env (emit (NodeStart n) w) state = (Inr state', w1) \<and>
           (case graph_edge n of
              None \<Rightarrow> final = state' \<and> w' = w1
            | Some n' \<Rightarrow> run_from env n' w1 state' = (Inr final, w'))"
proof -
  obtain r w1 where g: "graph_node n env (emit (NodeStart n) w) state = (r, w1)"
    by (cases "graph_node n env (emit (NodeStart n) w) state") auto
  show ?thesis
  proof (cases r)
    case (Inl e)
    with g assms show ?thesis using run_from_raise [of n env w state e] by simp
  next
    case (Inr state')
    with g assms show ?thesis
      using run_from_return [of n env w state state' w1] by (auto split: option.splits)
  qed
qed

lemma graph_node_log:
  assumes "graph_node n env w state = (Inr state', w')"
  shows "\<exists>k msg. clock_reads w \<le> k \<and> k < clock_reads w' \<and>
           logs state' = Some (logs_of state @ [log_line env k msg])"
proof (cases n)
  case generate_email_node
  with assms have "node_generate_email env w state = (Inr state', w')" by simp
  from node_generate_email_effect [OF this] show ?thesis
    by (intro exI [of _ "clock_reads w"]) auto
next
  case send_email_node
  with assms have "node_send_email env w state = (Inr state', w')" by simp
  from node_send_email_effect [OF this] show ?thesis
    by (intro exI [of _ "clock_reads w"]) auto
next
  case asana_task_node
  with assms have "node_asana_task env w state = (Inr state', w')" by simp
  from node_asana_task_effect [OF this] show ?thesis
    by (intro exI [of _ "clock_reads w"]) auto
next
  case find_mentor_node
  with assms have "node_find_mentor env w state = (Inr state', w')" by simp
  from node_find_mentor_effect [OF this] show ?thesis
    by (intro exI [of _ "clock_reads w"]) auto
next
  case schedule_intro_call_node
  with assms have "node_schedule_intro_call env w state = (Inr state', w')" by simp
  from node_schedule_intro_call_effect [OF this] show ?thesis
    by (intro exI [of _ "Suc (clock_reads w)"]) auto
qed

lemma graph_node_raise:
  assumes "graph_node n env w state = (Inl (e, at_raise), w')"
  shows "at_raise = state"
proof (cases n)
  case generate_email_node
  with assms have "node_generate_email env w state = (Inl (e, at_raise), w')" by simp
  from node_generate_email_effect [OF this] show ?thesis by blast
next
  case send_email_node
  with assms have "node_send_email env w state = (Inl (e, at_raise), w')" by simp
  from node_send_email_effect [OF this] show ?thesis by blast
next
  case asana_task_node
  with assms have "node_asana_task env w state = (Inl (e, at_raise), w')" by simp
  from node_asana_task_effect [OF this] show ?thesis by blast
next
  case find_mentor_node
  with assms have "node_find_mentor env w state = (Inl (e, at_raise), w')" by simp
  from node_find_mentor_effect [OF this] show ?thesis by blast
next
  case schedule_intro_call_node
  with assms have "node_schedule_intro_call env w state = (Inl (e, at_raise), w')" by simp
  from node_schedule_intro_call_effect [OF this] show ?thesis by blast
qed

lemma write_joiners_world:
  "employees (write_joiners emps w) = employees w \<and>
   nodes_started (trace (write_joiners emps w)) = nodes_started (trace w)"
  by (induction emps arbitrary: w) simp_all

lemma onboard_each_outcomes:
  "onboard_each env emps w succ fails =
     ((succ + completed (outcomes env emps w), fails @ failure_descriptors (outcomes env emps w)),
      world_after env emps w)"
proof (induction emps arbitrary: w succ fails)
  case Nil
  show ?case by simp
next
  case (Cons emp rest)
  obtain r w1 where inv: "invoke env w (initial_state emp) = (r, w1)"
    by (cases "invoke env w (initial_state emp)") auto
  then have inv': "invoke env w \<lparr>employee = Some emp, email_body = None, email_result = None,
      asana_task = None, mentor = None, calendar_event = None, logs = Some []\<rparr> = (r, w1)"
    by (simp add: initial_state_def)
  show ?case
  proof (cases r)
    case (Inl raised)
    obtain e at_raise where "raised = (e, at_raise)" by (cases raised)
    with Inl inv inv' Cons.IH [of w1 succ "fails @ [email emp @ '': '' @ error_str e]"]
    show ?thesis by (simp add: Let_def)
  next
    case (Inr final)
    with inv inv' Cons.IH [of w1 "succ + 1" fails]
    show ?thesis by (simp add: Let_def)
  qed
qed

lemma outcomes_cover: "map fst (outcomes env emps w) = emps"
  by (induction emps arbitrary: w) simp_all

lemma completed_plus_failed:
  "completed os + length (failure_descriptors os) = length os"
  by (induction os rule: failure_descriptors.induct) simp_all

lemma complete_run_log:
  assumes emp: "employee state = Some emp" and empty: "logs_of state = []"
    and ret: "fst (invoke env w state) = Inr final"
  shows "\<exists>m. mentor final = Some m \<and>
     logs final = Some
       [log_line env (clock_reads w) (''Generated email for '' @ email emp),
        log_line env (clock_reads w + 1) (''Sent welcome email to '' @ email emp),
        log_line env (clock_reads w + 2) (''Created Asana task for '' @ email emp),
        log_line env (clock_reads w + 3) (''Selected mentor '' @ name m @ '' for '' @ email emp),
        log_line env (clock_reads w + 5) (''Scheduled mentor call for '' @ email emp)]"
proof -
  obtain w' where "invoke env w state = (Inr final, w')"
    using ret by (cases "invoke env w state") auto
  then have r0: "run_from env generate_email_node w state = (Inr final, w')"
    by (simp add: invoke_def graph_entry_point_def)
  from run_from_Inr_step [OF r0] obtain s1 w1 where
    g1: "node_generate_email env (emit (NodeStart generate_email_node) w) state = (Inr s1, w1)"
    and r1: "run_from env send_email_node w1 s1 = (Inr final, w')"
    by auto
  from node_generate_email_effect [OF g1] emp empty
  have e1: "employee s1 = Some emp" and c1: "clock_reads w1 = clock_reads w + 1"
    and l1: "logs_of s1 = [log_line env (clock_reads w) (''Generated email for '' @ email emp)]"
    by (auto simp: logs_of_def)
  from run_from_Inr_step [OF r1] obtain s2 w2 where
    g2: "node_send_email env (emit (NodeStart send_email_node) w1) s1 = (Inr s2, w2)"
    and r2: "run_from env asana_task_node w2 s2 = (Inr final, w')"
    by auto
  from node_send_email_effect [OF g2] e1 c1 l1
  have e2: "employee s2 = Some emp" and c2: "clock_reads w2 = clock_reads w + 2"
    and l2: "logs_of s2 = [log_line env (clock_reads w) (''Generated email for '' @ email emp),
        log_line env (clock_reads w + 1) (''Sent welcome email to '' @ email emp)]"
    by (auto simp: logs_of_def)
  from run_from_Inr_step [OF r2] obtain s3 w3 where
    g3: "node_asana_task env (emit (NodeStart asana_task_node) w2) s2 = (Inr s3, w3)"
    and r3: "run_from env find_mentor_node w3 s3 = (Inr final, w')"
    by auto
  from node_asana_task_effect [OF g3] e2 c2 l2
  have e3: "employee s3 = Some emp" and c3: "clock_reads w3 = clock_reads w + 3"
    and l3: "logs_of s3 = [log_line env (clock_reads w) (''Generated email for '' @ email emp),
        log_line env (clock_reads w + 1) (''Sent welcome email to '' @ email emp),
        log_line env (clock_reads w + 2) (''Created Asana task for '' @ email emp)]"
    by (auto simp: logs_of_def)
  from run_from_Inr_step [OF r3] obtain s4 w4 where
    g4: "node_find_mentor env (emit (NodeStart find_mentor_node) w3) s3 = (Inr s4, w4)"
    and r4: "run_from env schedule_intro_call_node w4 s4 = (Inr final, w')"
    by auto
  from node_find_mentor_effect [OF g4] e3 c3 l3 obtain m where
    e4: "employee s4 = Some emp" and m4: "mentor s4 = Some m"
    and c4: "clock_reads w4 = clock_reads w + 4"
    and l4: "logs_of s4 = [log_line env (clock_reads w) (''Generated email for '' @ email emp),
        log_line env (clock_reads w + 1) (''Sent welcome email to '' @ email emp),
        log_line env (clock_reads w + 2) (''Created Asana task for '' @ email emp),
        log_line env (clock_reads w + 3) (''Selected mentor '' @ name m @ '' for '' @ email emp)]"
    by (auto simp: logs_of_def)
  from run_from_Inr_step [OF r4]
  have g5: "node_schedule_intro_call env (emit (NodeStart schedule_intro_call_node) w4) s4 =
      (Inr final, w')"
    by auto
  have keep: "mentor final = mentor s4"
    using g5
    by (auto simp: node_schedule_intro_call_def today_def Let_def append_log_def now_def
             split: option.splits prod.splits sum.splits)
  from node_schedule_intro_call_effect [OF g5] e4 c4 l4
  have "logs final = Some
       [log_line env (clock_reads w) (''Generated email for '' @ email emp),
        log_line env (clock_reads w + 1) (''Sent welcome email to '' @ email emp),
        log_line env (clock_reads w + 2) (''Created Asana task for '' @ email emp),
        log_line env (clock_reads w + 3) (''Selected mentor '' @ name m @ '' for '' @ email emp),
        log_line env (clock_reads w + 5) (''Scheduled mentor call for '' @ email emp)]"
    by (auto simp: logs_of_def ac_simps)
  with keep m4 show ?thesis by simp
qed

lemma invoke_unfold:
  "invoke env w state =
     (case node_generate_email env (emit (NodeStart generate_email_node) w) state of
        (Inl raised, w1) \<Rightarrow> (Inl raised, w1)
      | (Inr s1, w1) \<Rightarrow>
     (case node_send_email env (emit (NodeStart send_email_node) w1) s1 of
        (Inl raised, w2) \<Rightarrow> (Inl raised, w2)
      | (Inr s2, w2) \<Rightarrow>
     (case node_asana_task env (emit (NodeStart asana_task_node) w2) s2 of
        (Inl raised, w3) \<Rightarrow> (Inl raised, w3)
      | (Inr s3, w3) \<Rightarrow>
     (case node_find_mentor env (emit (NodeStart find_mentor_node) w3) s3 of
        (Inl raised, w4) \<Rightarrow> (Inl raised, w4)
      | (Inr s4, w4) \<Rightarrow>
          node_schedule_intro_call env (emit (NodeStart schedule_intro_call_node) w4) s4))))"
  by (simp add: invoke_def graph_entry_point_def run_from_unfold split: prod.splits sum.splits)

lemma complete_run_trace:
  assumes emp: "employee state = Some emp"
    and ret: "fst (invoke env w state) = Inr final"
  shows "\<exists>f m ws tb fb mt d.
     trace (snd (invoke env w state)) = trace w @
       [NodeStart generate_email_node, LlmInvoke f,
        NodeStart send_email_node, GoogleAuth ''gmail'', GmailSend ''me'' m,
        NodeStart asana_task_node, AsanaAddUser ws (email emp), AsanaCreateTask tb,
        NodeStart find_mentor_node, SqlConnect, SqlExecute (SelectSeniorAt (location emp))] @ fb @
       [NodeStart schedule_intro_call_node, GoogleAuth ''calendar'', CalendarInsert d] \<and>
     (fb = [] \<or> fb = [SqlExecute SelectSeniorAny]) \<and>
     pf_name f = name emp \<and> msg_to m = email emp \<and> tb_assignee tb = email emp \<and>
     mentor final = Some mt \<and> ev_attendees d = [email emp, email mt]"
proof -
  obtain w' where inv: "invoke env w state = (Inr final, w')"
    using ret by (cases "invoke env w state") auto
  then have r0: "run_from env generate_email_node w state = (Inr final, w')"
    by (simp add: invoke_def graph_entry_point_def)
  from run_from_Inr_step [OF r0] obtain s1 w1 where
    g1: "node_generate_email env (emit (NodeStart generate_email_node) w) state = (Inr s1, w1)"
    and r1: "run_from env send_email_node w1 s1 = (Inr final, w')"
    by auto
  from node_generate_email_effect [OF g1] emp have e1: "employee s1 = Some emp" by auto
  from node_generate_email_trace [OF g1] emp obtain f where
    f: "pf_name f = name emp"
    and t1: "trace w1 = trace w @ [NodeStart generate_email_node, LlmInvoke f]"
    by auto
  from run_from_Inr_step [OF r1] obtain s2 w2 where
    g2: "node_send_email env (emit (NodeStart send_email_node) w1) s1 = (Inr s2, w2)"
    and r2: "run_from env asana_task_node w2 s2 = (Inr final, w')"
    by auto
  from node_send_email_effect [OF g2] e1 have e2: "employee s2 = Some emp" by auto
  from node_send_email_trace [OF g2] e1 obtain m where
    m: "msg_to m = email emp"
    and t2: "trace w2 = trace w1 @ [NodeStart send_email_node, GoogleAuth ''gmail'', GmailSend ''me'' m]"
    by auto
  from run_from_Inr_step [OF r2] obtain s3 w3 where
    g3: "node_asana_task env (emit (NodeStart asana_task_node) w2) s2 = (Inr s3, w3)"
    and r3: "run_from env find_mentor_node w3 s3 = (Inr final, w')"
    by auto
  from node_asana_task_effect [OF g3] e2 have e3: "employee s3 = Some emp" by auto
  from node_asana_task_trace [OF g3] e2 obtain ws tb where
    tb: "tb_assignee tb = email emp"
    and t3: "trace w3 = trace w2 @
      [NodeStart asana_task_node, AsanaAddUser ws (email emp), AsanaCreateTask tb]"
    by auto
  from run_from_Inr_step [OF r3] obtain s4 w4 where
    g4: "node_find_mentor env (emit (NodeStart find_mentor_node) w3) s3 = (Inr s4, w4)"
    and r4: "run_from env schedule_intro_call_node w4 s4 = (Inr final, w')"
    by auto
  from node_find_mentor_effect [OF g4] e3 have e4: "employee s4 = Some emp" by auto
  from node_find_mentor_trace [OF g4] e3 obtain fb where
    fb: "fb = [] \<or> fb = [SqlExecute SelectSeniorAny]"
    and t4: "trace w4 = trace w3 @
      [NodeStart find_mentor_node, SqlConnect, SqlExecute (SelectSeniorAt (location emp))] @ fb"
    by auto
  from run_from_Inr_step [OF r4]
  have g5: "node_schedule_intro_call env (emit (NodeStart schedule_intro_call_node) w4) s4 =
      (Inr final, w')"
    by auto
  from node_schedule_intro_call_trace [OF g5] e4 obtain mt d where
    mt: "mentor final = Some mt" and d: "ev_attendees d = [email emp, email mt]"
    and t5: "trace w' = trace w4 @
      [NodeStart schedule_intro_call_node, GoogleAuth ''calendar'', CalendarInsert d]"
    by auto
  from t1 t2 t3 t4 t5 have "trace w' = trace w @
       [NodeStart generate_email_node, LlmInvoke f,
        NodeStart send_email_node, GoogleAuth ''gmail'', GmailSend ''me'' m,
        NodeStart asana_task_node, AsanaAddUser ws (email emp), AsanaCreateTask tb,
        NodeStart find_mentor_node, SqlConnect, SqlExecute (SelectSeniorAt (location emp))] @ fb @
       [NodeStart schedule_intro_call_node, GoogleAuth ''calendar'', CalendarInsert d]"
    by simp
  with inv fb f m tb mt d show ?thesis
    by (intro exI [of _ f] exI [of _ m] exI [of _ ws] exI [of _ tb] exI [of _ fb]
          exI [of _ mt] exI [of _ d]) simp
qed

section \<open>The example runs\<close>

lemma flaky_run_kaushal:
  "employees w = employees ex_world \<Longrightarrow>
     (case fst (invoke flaky_env w (initial_state kaushal)) of Inr final \<Rightarrow> True | Inl e \<Rightarrow> False)"
  by (simp add: run_from_unfold step_defs flaky_env_def ex_defs)

lemma flaky_run_asha:
  "case fst (invoke flaky_env w (initial_state asha)) of
     Inl (e, at_raise) \<Rightarrow> e = ExternalError ''connection reset'' | Inr final \<Rightarrow> False"
  by (simp add: run_from_unfold step_defs flaky_env_def ex_env_def asha_def)

section \<open>Eligibility query\<close>

text \<open>
  Claim C5. For every lookback window \<open>W\<close>, every record the eligibility query returns is a
  row of the store whose role is "Data Engineer", whose level is "junior" and whose join date
  is on or after the day of the call minus \<open>W\<close> days (inclusive); and the store is left as
  it was, whether the query returns or raises.
\<close>

theorem eligibility_query_filter:
  "employees (snd (find_new_joiners_data_engineers env w W)) = employees w \<and>
   (\<forall>rows. fst (find_new_joiners_data_engineers env w W) = Inr rows \<longrightarrow>
      (\<forall>r \<in> set rows. r \<in> set (employees w) \<and> role r = ''Data Engineer'' \<and> level r = ''junior'' \<and>
         dt_date (clock env (clock_reads w)) - W \<le> date_joined r))"
proof (intro conjI allI impI ballI)
  show "employees (snd (find_new_joiners_data_engineers env w W)) = employees w"
    by (rule find_new_joiners_store)
next
  fix rows r
  assume ret: "fst (find_new_joiners_data_engineers env w W) = Inr rows" and r: "r \<in> set rows"
  from ret have "rows = rows_of (SelectNewJoiners (dt_date (clock env (clock_reads w)) - W)) (employees w)"
    by (rule find_new_joiners_result)
  with r show "r \<in> set (employees w)" "role r = ''Data Engineer''" "level r = ''junior''"
      "dt_date (clock env (clock_reads w)) - W \<le> date_joined r"
    by simp_all
qed

theorem eligibility_query_filter_witness:
  "fst (find_new_joiners_data_engineers ex_env ex_world 14) = Inr [kaushal] \<and>
   kaushal \<in> set (employees ex_world) \<and> role kaushal = ''Data Engineer'' \<and>
   level kaushal = ''junior'' \<and> dt_date (clock ex_env (clock_reads ex_world)) - 14 \<le> date_joined kaushal"
  using eligibility_query_filter [of ex_env ex_world 14]
  by (simp add: find_new_joiners_data_engineers_def today_def db_conn_def execute_def emit_def
        ex_env_def ex_world_def kaushal_def asha_def neeraj_def sneha_def karan_def)

section \<open>Mentor selection\<close>

text \<open>
  Claim C1. Whenever the selector returns for a preferred location: if some senior Data
  Engineer of the store is at that location, the result is one of them with the earliest join
  date among them; otherwise, if the store has a senior Data Engineer at all, the result is one
  with the earliest join date among all of them; otherwise the result is \<open>None\<close>, and then
  the select-mentor step of an employee of that location raises \<open>RuntimeError\<close>, which ends
  that employee's run.
\<close>

theorem mentor_selection_policy:
  assumes ret: "fst (find_senior_mentor env w loc) = Inr res"
  shows "((\<exists>c \<in> set (employees w). senior_data_engineer c \<and> location c = loc) \<longrightarrow>
            (\<exists>m. res = Some m \<and> m \<in> set (employees w) \<and> senior_data_engineer m \<and> location m = loc \<and>
               (\<forall>c \<in> set (employees w). senior_data_engineer c \<and> location c = loc \<longrightarrow>
                  date_joined m \<le> date_joined c))) \<and>
         (\<not> (\<exists>c \<in> set (employees w). senior_data_engineer c \<and> location c = loc) \<and>
          (\<exists>c \<in> set (employees w). senior_data_engineer c) \<longrightarrow>
            (\<exists>m. res = Some m \<and> m \<in> set (employees w) \<and> senior_data_engineer m \<and>
               (\<forall>c \<in> set (employees w). senior_data_engineer c \<longrightarrow> date_joined m \<le> date_joined c))) \<and>
         (\<not> (\<exists>c \<in> set (employees w). senior_data_engineer c) \<longrightarrow>
            res = None \<and>
            (\<forall>state emp. employee state = Some emp \<and> location emp = loc \<longrightarrow>
               fst (node_find_mentor env w state) =
                 Inl (RuntimeError (''No senior mentor available for '' @ name emp), state)))"
proof -
  let ?at = "fetchone (rows_of (SelectSeniorAt loc) (employees w))"
  let ?any = "fetchone (rows_of SelectSeniorAny (employees w))"
  from ret have res: "res = (case ?at of Some row \<Rightarrow> Some row | None \<Rightarrow> ?any)"
    by (rule find_senior_mentor_result)
  have branch1: "\<exists>m. res = Some m \<and> m \<in> set (employees w) \<and> senior_data_engineer m \<and> location m = loc \<and>
               (\<forall>c \<in> set (employees w). senior_data_engineer c \<and> location c = loc \<longrightarrow>
                  date_joined m \<le> date_joined c)"
    if "\<exists>c \<in> set (employees w). senior_data_engineer c \<and> location c = loc"
  proof -
    from that have "?at \<noteq> None" by (simp only: select_senior_at_none simp_thms)
    then obtain m where m: "?at = Some m" by auto
    with res have "res = Some m" by simp
    with select_senior_at_some [OF m] show ?thesis by blast
  qed
  have branch2: "\<exists>m. res = Some m \<and> m \<in> set (employees w) \<and> senior_data_engineer m \<and>
               (\<forall>c \<in> set (employees w). senior_data_engineer c \<longrightarrow> date_joined m \<le> date_joined c)"
    if "\<not> (\<exists>c \<in> set (employees w). senior_data_engineer c \<and> location c = loc)"
      and "\<exists>c \<in> set (employees w). senior_data_engineer c"
  proof -
    from that(1) have at: "?at = None" by (simp only: select_senior_at_none simp_thms)
    from that(2) have "?any \<noteq> None" by (simp only: select_senior_any_none simp_thms)
    then obtain m where m: "?any = Some m" by auto
    with res at have "res = Some m" by simp
    with select_senior_any_some [OF m] show ?thesis by blast
  qed
  have branch3: "res = None \<and>
            (\<forall>state emp. employee state = Some emp \<and> location emp = loc \<longrightarrow>
               fst (node_find_mentor env w state) =
                 Inl (RuntimeError (''No senior mentor available for '' @ name emp), state))"
    if "\<not> (\<exists>c \<in> set (employees w). senior_data_engineer c)"
  proof -
    from that have any: "?any = None" by (simp only: select_senior_any_none simp_thms)
    from that have "\<not> (\<exists>c \<in> set (employees w). senior_data_engineer c \<and> location c = loc)" by blast
    then have at: "?at = None" by (simp only: select_senior_at_none simp_thms)
    from res at any have none: "res = None" by simp
    show ?thesis
    proof (intro conjI allI impI)
      show "res = None" by (rule none)
    next
      fix state :: EmpState and emp
      assume "employee state = Some emp \<and> location emp = loc"
      with ret none show "fst (node_find_mentor env w state) =
          Inl (RuntimeError (''No senior mentor available for '' @ name emp), state)"
        using node_find_mentor_none [of state emp env w] by simp
    qed
  qed
  from branch1 branch2 branch3 show ?thesis by blast
qed

theorem mentor_selection_policy_witness:
  "fst (find_senior_mentor ex_env ex_world ''Bengaluru'') = Inr (Some neeraj) \<and>
   (\<exists>c \<in> set (employees ex_world). senior_data_engineer c \<and> location c = ''Bengaluru'') \<and>
   fst (find_senior_mentor ex_env ex_world ''Delhi'') = Inr (Some sneha) \<and>
   \<not> (\<exists>c \<in> set (employees ex_world). senior_data_engineer c \<and> location c = ''Delhi'') \<and>
   (\<exists>c \<in> set (employees ex_world). senior_data_engineer c) \<and>
   fst (find_senior_mentor ex_env juniors_world ''Pune'') = Inr None \<and>
   \<not> (\<exists>c \<in> set (employees juniors_world). senior_data_engineer c) \<and>
   fst (node_find_mentor ex_env juniors_world
          \<lparr>employee = Some (kaushal\<lparr>location := ''Pune''\<rparr>), email_body = None, email_result = None,
           asana_task = None, mentor = None, calendar_event = None, logs = Some []\<rparr>) =
     Inl (RuntimeError ''No senior mentor available for Kaushal Vachhani'',
          \<lparr>employee = Some (kaushal\<lparr>location := ''Pune''\<rparr>), email_body = None, email_result = None,
           asana_task = None, mentor = None, calendar_event = None, logs = Some []\<rparr>)"
proof -
  have h1: "fst (find_senior_mentor ex_env ex_world ''Bengaluru'') = Inr (Some neeraj)"
    by code_simp
  have h2: "fst (find_senior_mentor ex_env ex_world ''Delhi'') = Inr (Some sneha)"
    by code_simp
  have h3: "fst (find_senior_mentor ex_env juniors_world ''Pune'') = Inr None"
    by code_simp
  have s1: "\<exists>c \<in> set (employees ex_world). senior_data_engineer c \<and> location c = ''Bengaluru''"
    by code_simp
  have s2: "\<not> (\<exists>c \<in> set (employees ex_world). senior_data_engineer c \<and> location c = ''Delhi'')"
    by code_simp
  have s3: "\<not> (\<exists>c \<in> set (employees juniors_world). senior_data_engineer c)"
    by code_simp
  have h4: "fst (node_find_mentor ex_env juniors_world
          \<lparr>employee = Some (kaushal\<lparr>location := ''Pune''\<rparr>), email_body = None, email_result = None,
           asana_task = None, mentor = None, calendar_event = None, logs = Some []\<rparr>) =
     Inl (RuntimeError ''No senior mentor available for Kaushal Vachhani'',
          \<lparr>employee = Some (kaushal\<lparr>location := ''Pune''\<rparr>), email_body = None, email_result = None,
           asana_task = None, mentor = None, calendar_event = None, logs = Some []\<rparr>)"
    by (simp add: step_defs juniors_world_def ex_defs)
  note t = mentor_selection_policy [OF h1] mentor_selection_policy [OF h2]
    mentor_selection_policy [OF h3]
  from t h1 h2 h3 h4 s1 s2 s3 show ?thesis by simp
qed

section \<open>Failure of a step\<close>

text \<open>
  Claim C2, as stated, fails: with a Gmail service that answers \<open>HttpError\<close> and an Asana
  service that answers \<open>ApiException\<close> to the task creation, the run of the first seeded
  employee still enters all five nodes and returns, with \<open>None\<close> stored as delivery result and
  as task result.
\<close>

theorem swallowed_failure_counterexample:
  "(\<forall>h. gmail_api failing_env h = RaisesApiError ''HttpError 503'') \<and>
   (\<forall>h. asana_create_task failing_env h = RaisesApiError ''ApiException 403'') \<and>
   nodes_started (trace (snd (invoke failing_env ex_world (initial_state kaushal)))) =
     [generate_email_node, send_email_node, asana_task_node, find_mentor_node,
      schedule_intro_call_node] \<and>
   (case fst (invoke failing_env ex_world (initial_state kaushal)) of
      Inr final \<Rightarrow> email_result final = Some None \<and> asana_task final = Some None
    | Inl e \<Rightarrow> False)"
proof -
  have "\<forall>h. gmail_api failing_env h = RaisesApiError ''HttpError 503''"
    by (simp add: failing_env_def)
  moreover have "\<forall>h. asana_create_task failing_env h = RaisesApiError ''ApiException 403''"
    by (simp add: failing_env_def)
  moreover have "nodes_started (trace (snd (invoke failing_env ex_world (initial_state kaushal)))) =
     [generate_email_node, send_email_node, asana_task_node, find_mentor_node,
      schedule_intro_call_node]"
    by (simp add: run_from_unfold step_defs failing_env_def ex_defs)
  moreover have "(case fst (invoke failing_env ex_world (initial_state kaushal)) of
      Inr final \<Rightarrow> email_result final = Some None \<and> asana_task final = Some None
    | Inl e \<Rightarrow> False)"
    by (simp add: run_from_unfold step_defs failing_env_def ex_defs)
  ultimately show ?thesis by blast
qed

text \<open>
  Claim C2, amended. From the moment the executor enters any of the five nodes: if the node
  raises, the run ends there with that exception and no further node is entered. A delivery
  failure (\<open>HttpError\<close>) or a task-creation failure (\<open>ApiException\<close>) does not raise: the
  adapter returns \<open>None\<close>, the step stores \<open>None\<close> as its result and returns, and the run
  goes on along the node's edge.
\<close>

theorem raising_step_halts_chain:
  "(\<forall>e. fst (graph_node n env (emit (NodeStart n) w) state) = Inl e \<longrightarrow>
      run_from env n w state = graph_node n env (emit (NodeStart n) w) state \<and>
      nodes_started (trace (snd (run_from env n w state))) = nodes_started (trace w) @ [n]) \<and>
   (\<forall>m. gmail_api env (trace w @ [GmailSend user_id msg]) = RaisesApiError m \<longrightarrow>
      send_message env w user_id msg = (Inr None, emit (GmailSend user_id msg) w)) \<and>
   (\<forall>emp body. employee state = Some emp \<and> email_body state = Some body \<and>
      fst (send_gmail env w ''me'' (email emp) (''Welcome to the team, '' @ name emp @ ''!'') body) =
        Inr None \<longrightarrow>
      (\<exists>state'. fst (node_send_email env w state) = Inr state' \<and> email_result state' = Some None)) \<and>
   (\<forall>m. asana_create_task env (trace w @ [AsanaCreateTask
            \<lparr>tb_name = task_name, tb_assignee = assignee, tb_workspace = ws, tb_projects = [pj]\<rparr>]) =
          RaisesApiError m \<longrightarrow>
      fst (create_task env w ws pj assignee task_name) = Inr None) \<and>
   (\<forall>emp. employee state = Some emp \<and>
      fst (create_onboarding_tasks env w
             (case environ env ''ASANA_WORKSPACE_GID'' of None \<Rightarrow> ''workspace_dummy'' | Some v \<Rightarrow> v)
             (case environ env ''ASANA_PROJECT_GID'' of None \<Rightarrow> ''project_dummy'' | Some v \<Rightarrow> v)
             (email emp) (''Onboarding for '' @ name emp @ '' - Data Engineer'')) = Inr None \<longrightarrow>
      (\<exists>state'. fst (node_asana_task env w state) = Inr state' \<and> asana_task state' = Some None)) \<and>
   (\<forall>state' w1 n'. graph_node n env (emit (NodeStart n) w) state = (Inr state', w1) \<and>
      graph_edge n = Some n' \<longrightarrow> run_from env n w state = run_from env n' w1 state')"
proof (intro conjI allI impI)
  fix e
  assume raised: "fst (graph_node n env (emit (NodeStart n) w) state) = Inl e"
  then show halt: "run_from env n w state = graph_node n env (emit (NodeStart n) w) state"
    by (rule run_from_raise)
  obtain r w1 where g: "graph_node n env (emit (NodeStart n) w) state = (r, w1)"
    by (cases "graph_node n env (emit (NodeStart n) w) state") auto
  from graph_node_world [OF g] halt g
  show "nodes_started (trace (snd (run_from env n w state))) = nodes_started (trace w) @ [n]"
    by simp
next
  fix m
  assume "gmail_api env (trace w @ [GmailSend user_id msg]) = RaisesApiError m"
  then show "send_message env w user_id msg = (Inr None, emit (GmailSend user_id msg) w)"
    by (simp add: send_message_def Let_def)
next
  fix emp :: employee and body
  assume a: "employee state = Some emp \<and> email_body state = Some body \<and>
      fst (send_gmail env w ''me'' (email emp) (''Welcome to the team, '' @ name emp @ ''!'') body) =
        Inr None"
  obtain w1 where "send_gmail env w ''me'' (email emp) (''Welcome to the team, '' @ name emp @ ''!'') body
      = (Inr None, w1)"
    using a by (cases "send_gmail env w ''me'' (email emp) (''Welcome to the team, '' @ name emp @ ''!'') body") auto
  with a show "\<exists>state'. fst (node_send_email env w state) = Inr state' \<and> email_result state' = Some None"
    by (simp add: node_send_email_def append_log_def now_def Let_def)
next
  fix m
  assume "asana_create_task env (trace w @ [AsanaCreateTask
            \<lparr>tb_name = task_name, tb_assignee = assignee, tb_workspace = ws, tb_projects = [pj]\<rparr>]) =
          RaisesApiError m"
  then show "fst (create_task env w ws pj assignee task_name) = Inr None"
    by (simp add: create_task_def Let_def)
next
  fix emp :: employee
  let ?ws = "case environ env ''ASANA_WORKSPACE_GID'' of None \<Rightarrow> ''workspace_dummy'' | Some v \<Rightarrow> v"
  let ?pj = "case environ env ''ASANA_PROJECT_GID'' of None \<Rightarrow> ''project_dummy'' | Some v \<Rightarrow> v"
  let ?call = "create_onboarding_tasks env w ?ws ?pj (email emp)
                 (''Onboarding for '' @ name emp @ '' - Data Engineer'')"
  assume a: "employee state = Some emp \<and> fst ?call = Inr None"
  then obtain w1 where "?call = (Inr None, w1)"
    by (cases ?call) auto
  with a show "\<exists>state'. fst (node_asana_task env w state) = Inr state' \<and> asana_task state' = Some None"
    by (simp add: node_asana_task_def append_log_def now_def Let_def)
next
  fix state' w1 n'
  assume "graph_node n env (emit (NodeStart n) w) state = (Inr state', w1) \<and> graph_edge n = Some n'"
  then show "run_from env n w state = run_from env n' w1 state'"
    using run_from_return [of n env w state state' w1] by simp
qed

theorem raising_step_halts_chain_witness:
  "fst (graph_node find_mentor_node ex_env (emit (NodeStart find_mentor_node) juniors_world)
          (initial_state kaushal)) =
     Inl (RuntimeError ''No senior mentor available for Kaushal Vachhani'', initial_state kaushal) \<and>
   nodes_started (trace (snd (run_from ex_env find_mentor_node juniors_world (initial_state kaushal)))) =
     nodes_started (trace juniors_world) @ [find_mentor_node] \<and>
   gmail_api failing_env (trace ex_world @ [GmailSend ''me'' \<lparr>msg_to = ''a'', msg_from = ''me'',
       msg_subject = ''s'', msg_text = ''t''\<rparr>]) = RaisesApiError ''HttpError 503'' \<and>
   send_message failing_env ex_world ''me'' \<lparr>msg_to = ''a'', msg_from = ''me'',
       msg_subject = ''s'', msg_text = ''t''\<rparr> =
     (Inr None, emit (GmailSend ''me'' \<lparr>msg_to = ''a'', msg_from = ''me'',
       msg_subject = ''s'', msg_text = ''t''\<rparr>) ex_world) \<and>
   (\<exists>state'. fst (node_send_email failing_env ex_world drafted_state) = Inr state' \<and>
      email_result state' = Some None) \<and>
   fst (create_task failing_env ex_world ''w'' ''p'' ''a'' ''t'') = Inr None \<and>
   (\<exists>state'. fst (node_asana_task failing_env ex_world drafted_state) = Inr state' \<and>
      asana_task state' = Some None) \<and>
   (\<exists>state' w1. graph_node send_email_node failing_env (emit (NodeStart send_email_node) ex_world)
        drafted_state = (Inr state', w1) \<and>
      run_from failing_env send_email_node ex_world drafted_state =
        run_from failing_env asana_task_node w1 state')"
proof -
  let ?m = "\<lparr>msg_to = ''a'', msg_from = ''me'', msg_subject = ''s'', msg_text = ''t''\<rparr>"
  have raised: "fst (graph_node find_mentor_node ex_env (emit (NodeStart find_mentor_node) juniors_world)
          (initial_state kaushal)) =
     Inl (RuntimeError ''No senior mentor available for Kaushal Vachhani'', initial_state kaushal)"
    by (simp add: step_defs juniors_world_def ex_defs)
  have gm: "gmail_api failing_env (trace ex_world @ [GmailSend ''me'' ?m]) =
      RaisesApiError ''HttpError 503''"
    by (simp add: failing_env_def)
  have st: "employee drafted_state = Some kaushal \<and> email_body drafted_state = Some ''<p>Welcome</p>''"
    by (simp add: drafted_state_def initial_state_def)
  have sg: "fst (send_gmail failing_env ex_world ''me'' (email kaushal)
              (''Welcome to the team, '' @ name kaushal @ ''!'') ''<p>Welcome</p>'') = Inr None"
    by (simp add: step_defs failing_env_def ex_env_def)
  have ct: "asana_create_task failing_env (trace ex_world @ [AsanaCreateTask
            \<lparr>tb_name = ''t'', tb_assignee = ''a'', tb_workspace = ''w'', tb_projects = [''p'']\<rparr>]) =
          RaisesApiError ''ApiException 403''"
    by (simp add: failing_env_def)
  have ot: "fst (create_onboarding_tasks failing_env ex_world
             (case environ failing_env ''ASANA_WORKSPACE_GID'' of
                None \<Rightarrow> ''workspace_dummy'' | Some v \<Rightarrow> v)
             (case environ failing_env ''ASANA_PROJECT_GID'' of
                None \<Rightarrow> ''project_dummy'' | Some v \<Rightarrow> v)
             (email kaushal) (''Onboarding for '' @ name kaushal @ '' - Data Engineer'')) = Inr None"
    by (simp add: step_defs failing_env_def ex_env_def)
  obtain s1 w1 where gn: "graph_node send_email_node failing_env
       (emit (NodeStart send_email_node) ex_world) drafted_state = (Inr s1, w1)"
    by (simp add: step_defs drafted_state_def failing_env_def ex_defs)
  have ed: "graph_edge send_email_node = Some asana_task_node"
    by simp
  note A = raising_step_halts_chain [of find_mentor_node ex_env juniors_world "initial_state kaushal"
      "''me''" ?m "''t''" "''a''" "''w''" "''p''"]
  note B = raising_step_halts_chain [of send_email_node failing_env ex_world drafted_state
      "''me''" ?m "''t''" "''a''" "''w''" "''p''"]
  from A raised have a1: "nodes_started (trace (snd (run_from ex_env find_mentor_node juniors_world
       (initial_state kaushal)))) = nodes_started (trace juniors_world) @ [find_mentor_node]"
    by blast
  from B gm have b2: "send_message failing_env ex_world ''me'' ?m =
      (Inr None, emit (GmailSend ''me'' ?m) ex_world)"
    by blast
  from B st sg have b3: "\<exists>state'. fst (node_send_email failing_env ex_world drafted_state) = Inr state' \<and>
      email_result state' = Some None"
    by blast
  from B ct have b4: "fst (create_task failing_env ex_world ''w'' ''p'' ''a'' ''t'') = Inr None"
    by blast
  from B st ot have b5: "\<exists>state'. fst (node_asana_task failing_env ex_world drafted_state) = Inr state' \<and>
      asana_task state' = Some None"
    by blast
  from B gn ed have b6: "run_from failing_env send_email_node ex_world drafted_state =
      run_from failing_env asana_task_node w1 s1"
    by blast
  from raised a1 gm b2 b3 b4 b5 b6 gn show ?thesis by blast
qed

section \<open>Per-employee isolation\<close>

text \<open>
  Claim C3. The loop of the orchestrator runs every eligible employee, in order, on a freshly
  built state seeded with that employee and an empty log, whatever the outcome of the employees
  before. An exception of a run is caught at the loop: it adds the descriptor "address: reason"
  to the failure list and the loop goes on; a run that returns adds one to the successes. So no
  exception of a step leaves the loop, and the summary counts every eligible employee.
\<close>

theorem per_employee_isolation:
  "onboard_each env emps w succ fails =
     ((succ + completed (outcomes env emps w), fails @ failure_descriptors (outcomes env emps w)),
      world_after env emps w) \<and>
   map fst (outcomes env emps w) = emps \<and>
   completed (outcomes env emps w) + length (failure_descriptors (outcomes env emps w)) = length emps \<and>
   (\<forall>joiners. fst (find_new_joiners_data_engineers env w W) = Inr joiners \<and> joiners \<noteq> [] \<longrightarrow>
      (\<exists>res w0. fst (run_onboarding_for_new_joiners env w W) = Inr res \<and>
         employees w0 = employees w \<and>
         processed res = length joiners \<and>
         successes res = completed (outcomes env joiners w0) \<and>
         failures res = failure_descriptors (outcomes env joiners w0) \<and>
         message res = None))"
proof (intro conjI allI impI)
  show "onboard_each env emps w succ fails =
     ((succ + completed (outcomes env emps w), fails @ failure_descriptors (outcomes env emps w)),
      world_after env emps w)"
    by (rule onboard_each_outcomes)
  show "map fst (outcomes env emps w) = emps"
    by (rule outcomes_cover)
  show "completed (outcomes env emps w) + length (failure_descriptors (outcomes env emps w)) =
      length emps"
    using completed_plus_failed [of "outcomes env emps w"] outcomes_cover [of env emps w]
    by (metis length_map)
next
  fix joiners
  assume a: "fst (find_new_joiners_data_engineers env w W) = Inr joiners \<and> joiners \<noteq> []"
  then obtain w1 where q: "find_new_joiners_data_engineers env w W = (Inr joiners, w1)"
    by (cases "find_new_joiners_data_engineers env w W") auto
  have w1: "employees w1 = employees w"
    using find_new_joiners_store [of env w W] q by simp
  define w0 where "w0 =
    emit (StWrite ''Starting onboarding workflow...'')
     (emit (StMarkdown steps_markdown)
       (emit (StWrite ''They will be onboarded with the following steps:'')
         (write_joiners joiners
           (emit (StWrite ''Details of new joiners:'')
             (emit (StWrite (''Found '' @ str_nat (length joiners) @
                       '' new Data Engineers who joined in the last '' @
                       str_int W @ '' days.'')) w1)))))"
  have e0: "employees w0 = employees w"
    by (simp add: w0_def write_joiners_world w1)
  from q a have "run_onboarding_for_new_joiners env w W =
      (Inr \<lparr>processed = length joiners, successes = completed (outcomes env joiners w0),
            failures = failure_descriptors (outcomes env joiners w0), message = None\<rparr>,
       world_after env joiners w0)"
    by (simp add: run_onboarding_for_new_joiners_def Let_def onboard_each_outcomes w0_def)
  with e0 show "\<exists>res w0. fst (run_onboarding_for_new_joiners env w W) = Inr res \<and>
         employees w0 = employees w \<and>
         processed res = length joiners \<and>
         successes res = completed (outcomes env joiners w0) \<and>
         failures res = failure_descriptors (outcomes env joiners w0) \<and>
         message res = None"
    by (intro exI [of _ "\<lparr>processed = length joiners,
          successes = completed (outcomes env joiners w0),
          failures = failure_descriptors (outcomes env joiners w0), message = None\<rparr>"]
        exI [of _ w0]) simp
qed

theorem per_employee_isolation_witness:
  "fst (find_new_joiners_data_engineers flaky_env ex_world 200) = Inr [kaushal, asha] \<and>
   [kaushal, asha] \<noteq> [] \<and>
   (\<exists>res. fst (run_onboarding_for_new_joiners flaky_env ex_world 200) = Inr res \<and>
      processed res = 2 \<and> successes res = 1 \<and>
      failures res = [''asha.patel@example.com: connection reset''] \<and> message res = None)"
proof -
  have h: "fst (find_new_joiners_data_engineers flaky_env ex_world 200) = Inr [kaushal, asha]"
    by (simp add: find_new_joiners_data_engineers_def today_def db_conn_def execute_def emit_def
          flaky_env_def ex_defs)
  from per_employee_isolation [of flaky_env "[]" ex_world 0 "[]" 200] h
  obtain res w0 where run: "fst (run_onboarding_for_new_joiners flaky_env ex_world 200) = Inr res"
    and w0: "employees w0 = employees ex_world"
    and res: "processed res = length [kaushal, asha]"
      "successes res = completed (outcomes flaky_env [kaushal, asha] w0)"
      "failures res = failure_descriptors (outcomes flaky_env [kaushal, asha] w0)"
      "message res = None"
    by blast
  from flaky_run_kaushal [OF w0] obtain final where
    k: "fst (invoke flaky_env w0 (initial_state kaushal)) = Inr final"
    by (cases "fst (invoke flaky_env w0 (initial_state kaushal))") auto
  obtain at_raise where a: "fst (invoke flaky_env (snd (invoke flaky_env w0 (initial_state kaushal)))
       (initial_state asha)) = Inl (ExternalError ''connection reset'', at_raise)"
    using flaky_run_asha [of "snd (invoke flaky_env w0 (initial_state kaushal))"]
    by (auto split: sum.splits)
  have out: "outcomes flaky_env [kaushal, asha] w0 =
      [(kaushal, Inr final), (asha, Inl (ExternalError ''connection reset'', at_raise))]"
    by (simp add: k a)
  have d: "email asha @ '': '' @ error_str (ExternalError ''connection reset'') =
      ''asha.patel@example.com: connection reset''"
    by (simp add: asha_def)
  from res out d have "processed res = 2 \<and> successes res = 1 \<and>
      failures res = [''asha.patel@example.com: connection reset''] \<and> message res = None"
    by simp
  with h run show ?thesis by blast
qed

section \<open>Orchestrator\<close>

text \<open>
  Claim C4. If the eligibility query returns no employees, \<open>run_onboarding_for_new_joiners\<close>
  returns the summary with processed = 0, successes = 0, failures = [] and the message
  "No new Data Engineers found"; the only events of the call are the connection to the store and
  the eligibility query itself: no node is entered and no other service is called.
\<close>

theorem no_new_joiners_no_op:
  assumes "fst (find_new_joiners_data_engineers env w W) = Inr []"
  shows "fst (run_onboarding_for_new_joiners env w W) =
           Inr \<lparr>processed = 0, successes = 0, failures = [],
                message = Some ''No new Data Engineers found''\<rparr> \<and>
         trace (snd (run_onboarding_for_new_joiners env w W)) =
           trace w @ [SqlConnect, SqlExecute (SelectNewJoiners (dt_date (clock env (clock_reads w)) - W))] \<and>
         nodes_started (trace (snd (run_onboarding_for_new_joiners env w W))) = nodes_started (trace w)"
proof -
  obtain w1 where q: "find_new_joiners_data_engineers env w W = (Inr [], w1)"
    using assms by (cases "find_new_joiners_data_engineers env w W") auto
  then have run: "run_onboarding_for_new_joiners env w W =
      (Inr \<lparr>processed = 0, successes = 0, failures = [],
            message = Some ''No new Data Engineers found''\<rparr>, w1)"
    by (simp add: run_onboarding_for_new_joiners_def)
  from find_new_joiners_trace [OF assms] q
  have tr: "trace w1 = trace w @
      [SqlConnect, SqlExecute (SelectNewJoiners (dt_date (clock env (clock_reads w)) - W))]"
    by simp
  from run tr show ?thesis by simp
qed

theorem no_new_joiners_no_op_witness:
  "fst (find_new_joiners_data_engineers ex_env seniors_world 14) = Inr [] \<and>
   fst (run_onboarding_for_new_joiners ex_env seniors_world 14) =
     Inr \<lparr>processed = 0, successes = 0, failures = [],
          message = Some ''No new Data Engineers found''\<rparr> \<and>
   trace (snd (run_onboarding_for_new_joiners ex_env seniors_world 14)) =
     [SqlConnect, SqlExecute (SelectNewJoiners 738986)]"
proof -
  have h: "fst (find_new_joiners_data_engineers ex_env seniors_world 14) = Inr []"
    by (simp add: find_new_joiners_data_engineers_def today_def db_conn_def execute_def emit_def
          ex_env_def seniors_world_def asha_def neeraj_def sneha_def karan_def)
  have c: "trace seniors_world = [] \<and> dt_date (clock ex_env (clock_reads seniors_world)) - 14 = 738986"
    by (simp add: seniors_world_def ex_env_def)
  from no_new_joiners_no_op [OF h] h c show ?thesis by simp
qed

section \<open>Meeting window\<close>

text \<open>
  Claim C6. For an employee processed on date \<open>D\<close> (the date the step reads from the clock)
  whose mentor has been selected, the schedule-meeting step, once it holds the calendar service,
  asks for exactly one event: it starts on \<open>D + 7\<close> at 10:00 and ends on \<open>D + 7\<close> at 11:00,
  both in the time zone "Asia/Kolkata", its attendees are exactly the employee and the mentor,
  and its request token is "mentor-", the employee's identifier, "-" and the date \<open>D + 7\<close>.
\<close>

theorem intro_call_window:
  assumes "employee state = Some emp" and "mentor state = Some m"
    and "google_auth env (trace w @ [GoogleAuth ''calendar'']) = None"
  shows "\<exists>d. trace (snd (node_schedule_intro_call env w state)) =
                trace w @ [GoogleAuth ''calendar'', CalendarInsert d] \<and>
              ev_start_dateTime d = isoformat_datetime env
                \<lparr>dt_date = dt_date (clock env (clock_reads w)) + 7,
                 dt_hour = 10, dt_minute = 0, dt_second = 0\<rparr> \<and>
              ev_end_dateTime d = isoformat_datetime env
                \<lparr>dt_date = dt_date (clock env (clock_reads w)) + 7,
                 dt_hour = 11, dt_minute = 0, dt_second = 0\<rparr> \<and>
              ev_start_timeZone d = ''Asia/Kolkata'' \<and> ev_end_timeZone d = ''Asia/Kolkata'' \<and>
              ev_attendees d = [email emp, email m] \<and>
              ev_requestId d = ''mentor-'' @ str_int (id_emp emp) @ ''-'' @
                isoformat_date env (dt_date (clock env (clock_reads w)) + 7)"
  using assms
  by (cases "calendar_api env (trace w @ [GoogleAuth ''calendar'', CalendarInsert
        \<lparr>ev_summary = ''Intro chat: '' @ name emp @ '' x '' @ name m @ '' (Data Platform)'',
         ev_location = ''Google Meet'',
         ev_description =
           ''Welcome '' @ name emp @ ''.'' @ [CHR 0x0A] @
           ''Mentor: '' @ name m @ '' ('' @ email m @ '').'' @ [CHR 0x0A] @
           ''Agenda: Meet the team, tooling overview, first week goals.'' @ [CHR 0x0A] @
           ''Manager: '' @ or_default (manager_email emp) ''N/A'' @ ''.'' @ [CHR 0x0A],
         ev_start_dateTime = isoformat_datetime env
           (combine (dt_date (clock env (clock_reads w)) + 7) (10, 0)),
         ev_start_timeZone = ''Asia/Kolkata'',
         ev_end_dateTime = isoformat_datetime env
           (combine (dt_date (clock env (clock_reads w)) + 7) (11, 0)),
         ev_end_timeZone = ''Asia/Kolkata'',
         ev_attendees = [email emp, email m],
         ev_reminders_useDefault = False,
         ev_reminders_overrides = [\<lparr>rem_method = ''popup'', rem_minutes = 30\<rparr>],
         ev_requestId = ''mentor-'' @ str_int (id_emp emp) @ ''-'' @
           isoformat_date env (dt_date (clock env (clock_reads w)) + 7),
         ev_conferenceSolution = ''hangoutsMeet''\<rparr>])")
     (simp_all add: node_schedule_intro_call_def schedule_calendar_event_def
        get_calendar_service_def today_def append_log_def now_def combine_def Let_def)

theorem intro_call_window_witness:
  "employee mentored_state = Some kaushal \<and> mentor mentored_state = Some neeraj \<and>
   google_auth ex_env (trace ex_world @ [GoogleAuth ''calendar'']) = None \<and>
   dt_date (clock ex_env (clock_reads ex_world)) = 739000 \<and>
   (\<exists>d. trace (snd (node_schedule_intro_call ex_env ex_world mentored_state)) =
           trace ex_world @ [GoogleAuth ''calendar'', CalendarInsert d] \<and>
         ev_start_dateTime d = ''739007T10:0:0'' \<and> ev_end_dateTime d = ''739007T11:0:0'' \<and>
         ev_attendees d = [''kaushal.vachhani@example.com'', ''neeraj.singh@example.com''] \<and>
         ev_requestId d = ''mentor-1-739007'')"
proof -
  have h1: "employee mentored_state = Some kaushal"
    by (simp add: mentored_state_def initial_state_def)
  have h2: "mentor mentored_state = Some neeraj"
    by (simp add: mentored_state_def initial_state_def)
  have h3: "google_auth ex_env (trace ex_world @ [GoogleAuth ''calendar'']) = None"
    by (simp add: ex_env_def)
  have d: "dt_date (clock ex_env (clock_reads ex_world)) = 739000"
    by (simp add: ex_env_def)
  have s1: "isoformat_datetime ex_env \<lparr>dt_date = 739000 + 7, dt_hour = 10, dt_minute = 0,
              dt_second = 0\<rparr> = ''739007T10:0:0''"
    by (simp add: ex_env_def ex_stamp_def str_int_def str_nat.simps digit_char_def)
  have s2: "isoformat_datetime ex_env \<lparr>dt_date = 739000 + 7, dt_hour = 11, dt_minute = 0,
              dt_second = 0\<rparr> = ''739007T11:0:0''"
    by (simp add: ex_env_def ex_stamp_def str_int_def str_nat.simps digit_char_def)
  have s3: "''mentor-'' @ str_int (id_emp kaushal) @ ''-'' @ isoformat_date ex_env (739000 + 7) =
              ''mentor-1-739007''"
    by (simp add: ex_env_def kaushal_def str_int_def str_nat.simps digit_char_def)
  have s4: "[email kaushal, email neeraj] =
              [''kaushal.vachhani@example.com'', ''neeraj.singh@example.com'']"
    by (simp add: kaushal_def neeraj_def)
  from intro_call_window [OF h1 h2 h3] obtain dd where
    "trace (snd (node_schedule_intro_call ex_env ex_world mentored_state)) =
       trace ex_world @ [GoogleAuth ''calendar'', CalendarInsert dd]"
    "ev_start_dateTime dd = isoformat_datetime ex_env
       \<lparr>dt_date = dt_date (clock ex_env (clock_reads ex_world)) + 7,
        dt_hour = 10, dt_minute = 0, dt_second = 0\<rparr>"
    "ev_end_dateTime dd = isoformat_datetime ex_env
       \<lparr>dt_date = dt_date (clock ex_env (clock_reads ex_world)) + 7,
        dt_hour = 11, dt_minute = 0, dt_second = 0\<rparr>"
    "ev_attendees dd = [email kaushal, email neeraj]"
    "ev_requestId dd = ''mentor-'' @ str_int (id_emp kaushal) @ ''-'' @
       isoformat_date ex_env (dt_date (clock ex_env (clock_reads ex_world)) + 7)"
    by blast
  then have "trace (snd (node_schedule_intro_call ex_env ex_world mentored_state)) =
       trace ex_world @ [GoogleAuth ''calendar'', CalendarInsert dd] \<and>
     ev_start_dateTime dd = ''739007T10:0:0'' \<and> ev_end_dateTime dd = ''739007T11:0:0'' \<and>
     ev_attendees dd = [''kaushal.vachhani@example.com'', ''neeraj.singh@example.com''] \<and>
     ev_requestId dd = ''mentor-1-739007''"
    by (simp only: d s1 s2 s3 s4 simp_thms)
  with h1 h2 h3 d show ?thesis by blast
qed

section \<open>Log entries\<close>

text \<open>
  Claim C7, as stated, fails in two ways. In a store without any senior the select-mentor step
  of the first seeded employee raises, and the dictionary it leaves behind is the one it was
  given: its log has no entry more. And the entries carry readings of the wall clock: with a clock that is set back by an hour after
  its second reading, the run of that employee completes with five entries of which the third
  is stamped earlier than the second.
\<close>

theorem log_entry_counterexample:
  "fst (graph_node find_mentor_node ex_env juniors_world (initial_state kaushal)) =
     Inl (RuntimeError ''No senior mentor available for Kaushal Vachhani'', initial_state kaushal) \<and>
   logs_of (state_after (fst (graph_node find_mentor_node ex_env juniors_world
      (initial_state kaushal)))) = logs_of (initial_state kaushal) \<and>
   \<not> appended_one_entry (initial_state kaushal)
        (fst (graph_node find_mentor_node ex_env juniors_world (initial_state kaushal))) \<and>
   (\<exists>final. fst (invoke set_back_env ex_world (initial_state kaushal)) = Inr final \<and>
      logs final = Some
        [log_line set_back_env 0 (''Generated email for '' @ email kaushal),
         log_line set_back_env 1 (''Sent welcome email to '' @ email kaushal),
         log_line set_back_env 2 (''Created Asana task for '' @ email kaushal),
         log_line set_back_env 3 (''Selected mentor '' @ name neeraj @ '' for '' @ email kaushal),
         log_line set_back_env 5 (''Scheduled mentor call for '' @ email kaushal)]) \<and>
   seconds_of (clock set_back_env 2) < seconds_of (clock set_back_env 1)"
proof -
  have r: "fst (graph_node find_mentor_node ex_env juniors_world (initial_state kaushal)) =
     Inl (RuntimeError ''No senior mentor available for Kaushal Vachhani'', initial_state kaushal)"
    by (simp add: step_defs juniors_world_def ex_defs)
  then have k: "logs_of (state_after (fst (graph_node find_mentor_node ex_env juniors_world
      (initial_state kaushal)))) = logs_of (initial_state kaushal)"
    by (simp only: state_after.simps)
  then have n: "\<not> appended_one_entry (initial_state kaushal)
        (fst (graph_node find_mentor_node ex_env juniors_world (initial_state kaushal)))"
    by (simp only: appended_one_entry_def)
  have "case fst (invoke set_back_env ex_world (initial_state kaushal)) of
          Inr final \<Rightarrow> mentor final = Some neeraj | Inl e \<Rightarrow> False"
    by (simp add: run_from_unfold step_defs set_back_env_def ex_defs)
  then obtain final where f: "fst (invoke set_back_env ex_world (initial_state kaushal)) = Inr final"
    and m: "mentor final = Some neeraj"
    by (cases "fst (invoke set_back_env ex_world (initial_state kaushal))") auto
  have st: "employee (initial_state kaushal) = Some kaushal" "logs_of (initial_state kaushal) = []"
    by (simp_all add: initial_state_def logs_of_def)
  have c0: "clock_reads ex_world = 0"
    by (simp add: ex_world_def)
  from complete_run_log [OF st f] m c0
  have l: "logs final = Some
        [log_line set_back_env 0 (''Generated email for '' @ email kaushal),
         log_line set_back_env 1 (''Sent welcome email to '' @ email kaushal),
         log_line set_back_env 2 (''Created Asana task for '' @ email kaushal),
         log_line set_back_env 3 (''Selected mentor '' @ name neeraj @ '' for '' @ email kaushal),
         log_line set_back_env 5 (''Scheduled mentor call for '' @ email kaushal)]"
    by (auto simp: numeral_2_eq_2)
  have b: "seconds_of (clock set_back_env 2) < seconds_of (clock set_back_env 1)"
    by (simp add: set_back_env_def ex_env_def seconds_of_def)
  from r k n f l b show ?thesis by blast
qed

text \<open>
  Claim C7, amended. Every one of the five steps that returns has appended exactly one log
  entry, stamped with a reading of the clock taken during the step; this includes the steps that
  store a caught service failure as \<open>None\<close>. A step that raises appends no entry: it leaves
  the dictionary as it was given. For an
  employee whose run completes from the fresh state, the log holds exactly five entries in step
  order, stamped with the readings number \<open>k\<close>, \<open>k + 1\<close>, \<open>k + 2\<close>, \<open>k + 3\<close> and
  \<open>k + 5\<close> of the clock, \<open>k\<close> being the number of readings before the run; these
  timestamps are non-decreasing whenever the wall clock does not step backwards.
\<close>

theorem log_entry_per_step:
  "(\<forall>n state'. fst (graph_node n env w state) = Inr state' \<longrightarrow>
      (\<exists>k msg. clock_reads w \<le> k \<and> k < clock_reads (snd (graph_node n env w state)) \<and>
         logs state' = Some (logs_of state @ [log_line env k msg]))) \<and>
   (\<forall>n e at_raise. fst (graph_node n env w state) = Inl (e, at_raise) \<longrightarrow>
      at_raise = state \<and> logs_of at_raise = logs_of state) \<and>
   (\<forall>emp final. employee state = Some emp \<and> logs_of state = [] \<and>
        fst (invoke env w state) = Inr final \<longrightarrow>
      (\<exists>m. mentor final = Some m \<and>
         logs final = Some
           [log_line env (clock_reads w) (''Generated email for '' @ email emp),
            log_line env (clock_reads w + 1) (''Sent welcome email to '' @ email emp),
            log_line env (clock_reads w + 2) (''Created Asana task for '' @ email emp),
            log_line env (clock_reads w + 3) (''Selected mentor '' @ name m @ '' for '' @ email emp),
            log_line env (clock_reads w + 5) (''Scheduled mentor call for '' @ email emp)])) \<and>
   ((\<forall>i j. i \<le> j \<longrightarrow> seconds_of (clock env i) \<le> seconds_of (clock env j)) \<longrightarrow>
      sorted (map (\<lambda>k. seconds_of (clock env k))
        [clock_reads w, clock_reads w + 1, clock_reads w + 2, clock_reads w + 3, clock_reads w + 5]))"
proof (intro conjI allI impI)
  fix n state'
  assume "fst (graph_node n env w state) = Inr state'"
  then have "graph_node n env w state = (Inr state', snd (graph_node n env w state))"
    by (rule fst_sndI)
  then show "\<exists>k msg. clock_reads w \<le> k \<and> k < clock_reads (snd (graph_node n env w state)) \<and>
         logs state' = Some (logs_of state @ [log_line env k msg])"
    by (rule graph_node_log)
next
  fix n e at_raise
  assume "fst (graph_node n env w state) = Inl (e, at_raise)"
  then have "graph_node n env w state = (Inl (e, at_raise), snd (graph_node n env w state))"
    by (rule fst_sndI)
  then have "at_raise = state"
    by (rule graph_node_raise)
  then show "at_raise = state" "logs_of at_raise = logs_of state"
    by simp_all
next
  fix emp :: employee and final
  assume "employee state = Some emp \<and> logs_of state = [] \<and> fst (invoke env w state) = Inr final"
  then show "\<exists>m. mentor final = Some m \<and>
         logs final = Some
           [log_line env (clock_reads w) (''Generated email for '' @ email emp),
            log_line env (clock_reads w + 1) (''Sent welcome email to '' @ email emp),
            log_line env (clock_reads w + 2) (''Created Asana task for '' @ email emp),
            log_line env (clock_reads w + 3) (''Selected mentor '' @ name m @ '' for '' @ email emp),
            log_line env (clock_reads w + 5) (''Scheduled mentor call for '' @ email emp)]"
    using complete_run_log [of state emp env w final] by blast
next
  assume mono: "\<forall>i j. i \<le> j \<longrightarrow> seconds_of (clock env i) \<le> seconds_of (clock env j)"
  then show "sorted (map (\<lambda>k. seconds_of (clock env k))
        [clock_reads w, clock_reads w + 1, clock_reads w + 2, clock_reads w + 3, clock_reads w + 5])"
    by simp
qed

theorem log_entry_per_step_witness:
  "(\<exists>state'. fst (graph_node send_email_node failing_env ex_world drafted_state) = Inr state' \<and>
      email_result state' = Some None \<and>
      logs state' = Some [log_line failing_env 0 (''Sent welcome email to '' @ email kaushal)]) \<and>
   fst (graph_node find_mentor_node ex_env juniors_world (initial_state kaushal)) =
     Inl (RuntimeError ''No senior mentor available for Kaushal Vachhani'', initial_state kaushal) \<and>
   employee (initial_state kaushal) = Some kaushal \<and> logs_of (initial_state kaushal) = [] \<and>
   (\<exists>final. fst (invoke ex_env ex_world (initial_state kaushal)) = Inr final \<and>
      logs final = Some
        [log_line ex_env 0 (''Generated email for '' @ email kaushal),
         log_line ex_env 1 (''Sent welcome email to '' @ email kaushal),
         log_line ex_env 2 (''Created Asana task for '' @ email kaushal),
         log_line ex_env 3 (''Selected mentor '' @ name neeraj @ '' for '' @ email kaushal),
         log_line ex_env 5 (''Scheduled mentor call for '' @ email kaushal)]) \<and>
   sorted (map (\<lambda>k. seconds_of (clock ex_env k)) [0, 1, 2, 3, 5])"
proof -
  note A = log_entry_per_step [of failing_env ex_world drafted_state]
  note B = log_entry_per_step [of ex_env ex_world "initial_state kaushal"]
  note C = log_entry_per_step [of ex_env juniors_world "initial_state kaushal"]
  have "case fst (graph_node find_mentor_node ex_env juniors_world (initial_state kaushal)) of
          Inl (e, at_raise) \<Rightarrow> e = RuntimeError ''No senior mentor available for Kaushal Vachhani''
        | Inr state' \<Rightarrow> False"
    by (simp add: step_defs juniors_world_def ex_defs)
  then obtain at_raise where
    "fst (graph_node find_mentor_node ex_env juniors_world (initial_state kaushal)) =
       Inl (RuntimeError ''No senior mentor available for Kaushal Vachhani'', at_raise)"
    by (auto split: sum.splits)
  with C have raised: "fst (graph_node find_mentor_node ex_env juniors_world (initial_state kaushal)) =
       Inl (RuntimeError ''No senior mentor available for Kaushal Vachhani'', initial_state kaushal)"
    by blast
  have c0: "clock_reads ex_world = 0"
    by (simp add: ex_world_def)
  have "case graph_node send_email_node failing_env ex_world drafted_state of
          (Inr state', w') \<Rightarrow> email_result state' = Some None \<and> clock_reads w' = 1
        | (Inl e, w') \<Rightarrow> False"
    by (simp add: step_defs drafted_state_def failing_env_def ex_defs)
  then obtain s1 where s1: "fst (graph_node send_email_node failing_env ex_world drafted_state) = Inr s1"
    and n1: "email_result s1 = Some None"
    and c1: "clock_reads (snd (graph_node send_email_node failing_env ex_world drafted_state)) = 1"
    by (cases "graph_node send_email_node failing_env ex_world drafted_state")
       (auto split: sum.splits)
  have d0: "logs_of drafted_state = []"
    by (simp add: drafted_state_def initial_state_def logs_of_def)
  from A s1 obtain k msg where km: "clock_reads ex_world \<le> k"
      "k < clock_reads (snd (graph_node send_email_node failing_env ex_world drafted_state))"
      "logs s1 = Some (logs_of drafted_state @ [log_line failing_env k msg])"
    by blast
  from km c0 c1 have k0: "k = 0" by simp
  have "node_send_email failing_env ex_world drafted_state =
      (Inr s1, snd (node_send_email failing_env ex_world drafted_state))"
    using s1 by (simp add: fst_sndI)
  from node_send_email_effect [OF this] d0 c0
  have l1: "logs s1 = Some [log_line failing_env 0 (''Sent welcome email to '' @ email kaushal)]"
    by (auto simp: drafted_state_def initial_state_def)
  have st: "employee (initial_state kaushal) = Some kaushal" "logs_of (initial_state kaushal) = []"
    by (simp_all add: initial_state_def logs_of_def)
  have "case fst (invoke ex_env ex_world (initial_state kaushal)) of
          Inr final \<Rightarrow> mentor final = Some neeraj | Inl e \<Rightarrow> False"
    by (simp add: run_from_unfold step_defs ex_defs)
  then obtain final where f: "fst (invoke ex_env ex_world (initial_state kaushal)) = Inr final"
    and m: "mentor final = Some neeraj"
    by (cases "fst (invoke ex_env ex_world (initial_state kaushal))") auto
  from B st f m c0 have l: "logs final = Some
        [log_line ex_env 0 (''Generated email for '' @ email kaushal),
         log_line ex_env 1 (''Sent welcome email to '' @ email kaushal),
         log_line ex_env 2 (''Created Asana task for '' @ email kaushal),
         log_line ex_env 3 (''Selected mentor '' @ name neeraj @ '' for '' @ email kaushal),
         log_line ex_env 5 (''Scheduled mentor call for '' @ email kaushal)]"
    by (auto simp: numeral_2_eq_2)
  have mono: "\<forall>i j. i \<le> j \<longrightarrow> seconds_of (clock ex_env i) \<le> seconds_of (clock ex_env j)"
    by (simp add: ex_env_def seconds_of_def)
  with B c0 have srt: "sorted (map (\<lambda>k. seconds_of (clock ex_env k)) [0, 1, 2, 3, 5])"
    by simp
  from s1 n1 l1 raised st f l srt show ?thesis by blast
qed

section \<open>Determinism of the selection\<close>

text \<open>
  Claim C8, as stated, fails: the statement names no second sort key, so with two seniors of
  the preferred location sharing the earliest join date the mentor returned follows the order
  in which the store is scanned. The same rows scanned in two orders give two mentors.
\<close>

theorem tie_scan_order_counterexample:
  "set (employees tie_world) = set (employees rescanned_world) \<and>
   date_joined neeraj = date_joined meera \<and> neeraj \<noteq> meera \<and>
   fst (find_senior_mentor ex_env tie_world ''Bengaluru'') = Inr (Some neeraj) \<and>
   fst (find_senior_mentor ex_env rescanned_world ''Bengaluru'') = Inr (Some meera)"
proof -
  have "set (employees tie_world) = set (employees rescanned_world)"
    by (auto simp: tie_world_def rescanned_world_def)
  moreover have "date_joined neeraj = date_joined meera \<and> neeraj \<noteq> meera"
    by (simp add: neeraj_def meera_def)
  moreover have "fst (find_senior_mentor ex_env tie_world ''Bengaluru'') = Inr (Some neeraj)"
    by (simp add: find_senior_mentor_def db_conn_def execute_def emit_def ex_env_def tie_world_def
          kaushal_def neeraj_def meera_def)
  moreover have "fst (find_senior_mentor ex_env rescanned_world ''Bengaluru'') = Inr (Some meera)"
    by (simp add: find_senior_mentor_def db_conn_def execute_def emit_def ex_env_def
          rescanned_world_def kaushal_def neeraj_def meera_def)
  ultimately show ?thesis by blast
qed

text \<open>
  Claim C8, amended. Mentor selection is deterministic when no two candidates share the
  earliest join date: if at most one senior Data Engineer of the preferred location is the
  earliest-joined among them, and at most one senior Data Engineer is the earliest-joined among
  all of them, then two runs of the selector for that location over stores holding the same rows,
  in whatever order the stores are scanned and whatever else differs between the runs, return
  the same result.
\<close>

theorem mentor_selection_deterministic_without_tie:
  assumes same: "set (employees w1) = set (employees w2)"
    and one_at: "\<forall>a b. earliest_among {c \<in> set (employees w1). senior_data_engineer c \<and> location c = loc} a \<and>
                        earliest_among {c \<in> set (employees w1). senior_data_engineer c \<and> location c = loc} b
                        \<longrightarrow> a = b"
    and one_any: "\<forall>a b. earliest_among {c \<in> set (employees w1). senior_data_engineer c} a \<and>
                         earliest_among {c \<in> set (employees w1). senior_data_engineer c} b
                         \<longrightarrow> a = b"
    and r1: "fst (find_senior_mentor env1 w1 loc) = Inr r1"
    and r2: "fst (find_senior_mentor env2 w2 loc) = Inr r2"
  shows "r1 = r2"
proof -
  let ?at1 = "fetchone (rows_of (SelectSeniorAt loc) (employees w1))"
  let ?at2 = "fetchone (rows_of (SelectSeniorAt loc) (employees w2))"
  let ?any1 = "fetchone (rows_of SelectSeniorAny (employees w1))"
  let ?any2 = "fetchone (rows_of SelectSeniorAny (employees w2))"
  from r1 have e1: "r1 = (case ?at1 of Some row \<Rightarrow> Some row | None \<Rightarrow> ?any1)"
    by (rule find_senior_mentor_result)
  from r2 have e2: "r2 = (case ?at2 of Some row \<Rightarrow> Some row | None \<Rightarrow> ?any2)"
    by (rule find_senior_mentor_result)
  have at: "?at1 = ?at2"
  proof (cases ?at1)
    case None
    then have "\<not> (\<exists>c \<in> set (employees w1). senior_data_engineer c \<and> location c = loc)"
      using select_senior_at_none [of loc "employees w1"] by blast
    then have "\<not> (\<exists>c \<in> set (employees w2). senior_data_engineer c \<and> location c = loc)"
      using same by simp
    then have "?at2 = None"
      using select_senior_at_none [of loc "employees w2"] by blast
    with None show ?thesis by simp
  next
    case (Some m1)
    then have "?at2 \<noteq> None"
      using same select_senior_at_none [of loc "employees w1"]
        select_senior_at_none [of loc "employees w2"] by auto
    then obtain m2 where m2: "?at2 = Some m2" by auto
    from select_senior_at_some [OF Some]
    have "earliest_among {c \<in> set (employees w1). senior_data_engineer c \<and> location c = loc} m1"
      by (simp add: earliest_among_def)
    moreover from select_senior_at_some [OF m2] same
    have "earliest_among {c \<in> set (employees w1). senior_data_engineer c \<and> location c = loc} m2"
      by (simp add: earliest_among_def)
    ultimately have "m1 = m2" using one_at by blast
    with Some m2 show ?thesis by simp
  qed
  have any: "?any1 = ?any2"
  proof (cases ?any1)
    case None
    then have "\<not> (\<exists>c \<in> set (employees w1). senior_data_engineer c)"
      using select_senior_any_none [of "employees w1"] by blast
    then have "\<not> (\<exists>c \<in> set (employees w2). senior_data_engineer c)"
      using same by simp
    then have "?any2 = None"
      using select_senior_any_none [of "employees w2"] by blast
    with None show ?thesis by simp
  next
    case (Some m1)
    then have "?any2 \<noteq> None"
      using same select_senior_any_none [of "employees w1"]
        select_senior_any_none [of "employees w2"] by auto
    then obtain m2 where m2: "?any2 = Some m2" by auto
    from select_senior_any_some [OF Some]
    have "earliest_among {c \<in> set (employees w1). senior_data_engineer c} m1"
      by (simp add: earliest_among_def)
    moreover from select_senior_any_some [OF m2] same
    have "earliest_among {c \<in> set (employees w1). senior_data_engineer c} m2"
      by (simp add: earliest_among_def)
    ultimately have "m1 = m2" using one_any by blast
    with Some m2 show ?thesis by simp
  qed
  from e1 e2 show ?thesis by (simp only: at any)
qed

theorem mentor_selection_deterministic_without_tie_witness:
  "set (employees ex_world) = set (employees later_world) \<and>
   employees ex_world \<noteq> employees later_world \<and>
   fst (find_senior_mentor ex_env ex_world ''Bengaluru'') = Inr (Some neeraj) \<and>
   fst (find_senior_mentor later_env later_world ''Bengaluru'') = Inr (Some neeraj)"
proof -
  have h0: "set (employees ex_world) = set (employees later_world)"
    by (auto simp: ex_world_def later_world_def)
  have h0': "employees ex_world \<noteq> employees later_world"
    by (simp add: ex_world_def later_world_def kaushal_def karan_def)
  have f: "senior_data_engineer neeraj" "senior_data_engineer sneha"
    "\<not> senior_data_engineer kaushal" "\<not> senior_data_engineer asha" "\<not> senior_data_engineer karan"
    "location neeraj = ''Bengaluru''" "location sneha \<noteq> ''Bengaluru''"
    "date_joined neeraj = 738600" "date_joined sneha = 738100"
    by (simp_all add: senior_data_engineer_def ex_defs)
  have at: "{c \<in> set (employees ex_world). senior_data_engineer c \<and> location c = ''Bengaluru''} =
      {neeraj}"
  proof -
    have "filter (\<lambda>c. senior_data_engineer c \<and> location c = ''Bengaluru'') (employees ex_world) =
        [neeraj]"
      by (simp add: ex_world_def f)
    then have "set (filter (\<lambda>c. senior_data_engineer c \<and> location c = ''Bengaluru'')
        (employees ex_world)) = {neeraj}"
      by (simp only: list.set)
    then show ?thesis by (simp only: set_filter)
  qed
  have any: "{c \<in> set (employees ex_world). senior_data_engineer c} = {neeraj, sneha}"
  proof -
    have "filter senior_data_engineer (employees ex_world) = [neeraj, sneha]"
      by (simp add: ex_world_def f)
    then have "set (filter senior_data_engineer (employees ex_world)) = {neeraj, sneha}"
      by (simp only: list.set)
    then show ?thesis by (simp only: set_filter)
  qed
  have u1: "\<forall>a b. earliest_among {c \<in> set (employees ex_world). senior_data_engineer c \<and>
                      location c = ''Bengaluru''} a \<and>
                  earliest_among {c \<in> set (employees ex_world). senior_data_engineer c \<and>
                      location c = ''Bengaluru''} b \<longrightarrow> a = b"
    by (rule unique_earliest_single [OF at])
  have u2: "\<forall>a b. earliest_among {c \<in> set (employees ex_world). senior_data_engineer c} a \<and>
                  earliest_among {c \<in> set (employees ex_world). senior_data_engineer c} b \<longrightarrow> a = b"
    by (rule unique_earliest_pair [OF any]) (simp add: f)
  have h1: "fst (find_senior_mentor ex_env ex_world ''Bengaluru'') = Inr (Some neeraj)"
    by (simp add: find_senior_mentor_def db_conn_def execute_def emit_def ex_defs)
  obtain r2 where h2: "fst (find_senior_mentor later_env later_world ''Bengaluru'') = Inr r2"
    using find_senior_mentor_returns [of later_env later_world "''Bengaluru''"]
    by (auto simp: later_env_def ex_env_def)
  from mentor_selection_deterministic_without_tie [OF h0 u1 u2 h1 h2] h0 h0' h1 h2
  show ?thesis by simp
qed

section \<open>Order of the steps\<close>

text \<open>
  Claim C9. A run of the per-employee graph is the five step functions applied one after the
  other in the fixed order draft message, deliver message, file task, select mentor, schedule
  meeting, each on the state the one before returned, ending at the first that raises. The nodes
  entered are the first \<open>k\<close> of that list, for some \<open>k\<close> from 1 to 5, and all five when
  the run returns; the calls a returning run has made to the outside are, in this order, the
  text generation, the Gmail send, the Asana invite and task creation, the mentor queries and
  the calendar insert. Within the file-task step the workspace invite is called first and the
  task creation second (the task creation is skipped only when the invite raises something other
  than \<open>ApiException\<close>).
\<close>

theorem steps_in_fixed_order:
  "invoke env w state =
     (case node_generate_email env (emit (NodeStart generate_email_node) w) state of
        (Inl raised, w1) \<Rightarrow> (Inl raised, w1)
      | (Inr s1, w1) \<Rightarrow>
     (case node_send_email env (emit (NodeStart send_email_node) w1) s1 of
        (Inl raised, w2) \<Rightarrow> (Inl raised, w2)
      | (Inr s2, w2) \<Rightarrow>
     (case node_asana_task env (emit (NodeStart asana_task_node) w2) s2 of
        (Inl raised, w3) \<Rightarrow> (Inl raised, w3)
      | (Inr s3, w3) \<Rightarrow>
     (case node_find_mentor env (emit (NodeStart find_mentor_node) w3) s3 of
        (Inl raised, w4) \<Rightarrow> (Inl raised, w4)
      | (Inr s4, w4) \<Rightarrow>
          node_schedule_intro_call env (emit (NodeStart schedule_intro_call_node) w4) s4)))) \<and>
   (\<exists>k. 1 \<le> k \<and> k \<le> 5 \<and>
      nodes_started (trace (snd (invoke env w state))) =
        nodes_started (trace w) @
          take k [generate_email_node, send_email_node, asana_task_node, find_mentor_node,
                  schedule_intro_call_node] \<and>
      (\<forall>final. fst (invoke env w state) = Inr final \<longrightarrow> k = 5)) \<and>
   (\<forall>emp final. employee state = Some emp \<and> fst (invoke env w state) = Inr final \<longrightarrow>
      (\<exists>f m ws tb fb mt d.
         trace (snd (invoke env w state)) = trace w @
           [NodeStart generate_email_node, LlmInvoke f,
            NodeStart send_email_node, GoogleAuth ''gmail'', GmailSend ''me'' m,
            NodeStart asana_task_node, AsanaAddUser ws (email emp), AsanaCreateTask tb,
            NodeStart find_mentor_node, SqlConnect, SqlExecute (SelectSeniorAt (location emp))] @ fb @
           [NodeStart schedule_intro_call_node, GoogleAuth ''calendar'', CalendarInsert d] \<and>
         (fb = [] \<or> fb = [SqlExecute SelectSeniorAny]) \<and>
         pf_name f = name emp \<and> msg_to m = email emp \<and> tb_assignee tb = email emp \<and>
         mentor final = Some mt \<and> ev_attendees d = [email emp, email mt])) \<and>
   (\<forall>emp. employee state = Some emp \<longrightarrow>
      (\<exists>ws pj. trace (snd (node_asana_task env w state)) =
         trace w @ AsanaAddUser ws (email emp) #
           (case asana_add_user env (trace w @ [AsanaAddUser ws (email emp)]) of
              RaisesOther m \<Rightarrow> []
            | _ \<Rightarrow> [AsanaCreateTask \<lparr>tb_name = ''Onboarding for '' @ name emp @ '' - Data Engineer'',
                      tb_assignee = email emp, tb_workspace = ws, tb_projects = [pj]\<rparr>])))"
proof (intro conjI allI impI)
  show "invoke env w state =
     (case node_generate_email env (emit (NodeStart generate_email_node) w) state of
        (Inl raised, w1) \<Rightarrow> (Inl raised, w1)
      | (Inr s1, w1) \<Rightarrow>
     (case node_send_email env (emit (NodeStart send_email_node) w1) s1 of
        (Inl raised, w2) \<Rightarrow> (Inl raised, w2)
      | (Inr s2, w2) \<Rightarrow>
     (case node_asana_task env (emit (NodeStart asana_task_node) w2) s2 of
        (Inl raised, w3) \<Rightarrow> (Inl raised, w3)
      | (Inr s3, w3) \<Rightarrow>
     (case node_find_mentor env (emit (NodeStart find_mentor_node) w3) s3 of
        (Inl raised, w4) \<Rightarrow> (Inl raised, w4)
      | (Inr s4, w4) \<Rightarrow>
          node_schedule_intro_call env (emit (NodeStart schedule_intro_call_node) w4) s4))))"
    by (rule invoke_unfold)
next
  obtain r w' where inv: "invoke env w state = (r, w')"
    by (cases "invoke env w state") auto
  then have "run_from env generate_email_node w state = (r, w')"
    by (simp add: invoke_def graph_entry_point_def)
  from run_from_nodes [OF this] obtain k where
    "1 \<le> k" "k \<le> length chain" "nodes_started (trace w') = nodes_started (trace w) @ take k chain"
    "\<forall>final. r = Inr final \<longrightarrow> k = length chain"
    by auto
  with inv show "\<exists>k. 1 \<le> k \<and> k \<le> 5 \<and>
      nodes_started (trace (snd (invoke env w state))) =
        nodes_started (trace w) @
          take k [generate_email_node, send_email_node, asana_task_node, find_mentor_node,
                  schedule_intro_call_node] \<and>
      (\<forall>final. fst (invoke env w state) = Inr final \<longrightarrow> k = 5)"
    by (intro exI [of _ k]) (simp add: chain_def)
next
  fix emp :: employee and final
  assume "employee state = Some emp \<and> fst (invoke env w state) = Inr final"
  then show "\<exists>f m ws tb fb mt d.
         trace (snd (invoke env w state)) = trace w @
           [NodeStart generate_email_node, LlmInvoke f,
            NodeStart send_email_node, GoogleAuth ''gmail'', GmailSend ''me'' m,
            NodeStart asana_task_node, AsanaAddUser ws (email emp), AsanaCreateTask tb,
            NodeStart find_mentor_node, SqlConnect, SqlExecute (SelectSeniorAt (location emp))] @ fb @
           [NodeStart schedule_intro_call_node, GoogleAuth ''calendar'', CalendarInsert d] \<and>
         (fb = [] \<or> fb = [SqlExecute SelectSeniorAny]) \<and>
         pf_name f = name emp \<and> msg_to m = email emp \<and> tb_assignee tb = email emp \<and>
         mentor final = Some mt \<and> ev_attendees d = [email emp, email mt]"
    using complete_run_trace [of state emp env w final] by blast
next
  fix emp :: employee
  assume "employee state = Some emp"
  then show "\<exists>ws pj. trace (snd (node_asana_task env w state)) =
         trace w @ AsanaAddUser ws (email emp) #
           (case asana_add_user env (trace w @ [AsanaAddUser ws (email emp)]) of
              RaisesOther m \<Rightarrow> []
            | _ \<Rightarrow> [AsanaCreateTask \<lparr>tb_name = ''Onboarding for '' @ name emp @ '' - Data Engineer'',
                      tb_assignee = email emp, tb_workspace = ws, tb_projects = [pj]\<rparr>])"
    by (intro exI [of _ "case environ env ''ASANA_WORKSPACE_GID'' of
                           None \<Rightarrow> ''workspace_dummy'' | Some v \<Rightarrow> v"]
              exI [of _ "case environ env ''ASANA_PROJECT_GID'' of
                           None \<Rightarrow> ''project_dummy'' | Some v \<Rightarrow> v"])
       (simp add: node_asana_task_def create_onboarding_tasks_def invite_user_to_workspace_def
          create_task_def append_log_def now_def Let_def split: api_result.splits)
qed

theorem steps_in_fixed_order_witness:
  "nodes_started (trace (snd (invoke ex_env ex_world (initial_state kaushal)))) =
     take 5 [generate_email_node, send_email_node, asana_task_node, find_mentor_node,
             schedule_intro_call_node] \<and>
   (\<exists>final. fst (invoke ex_env ex_world (initial_state kaushal)) = Inr final) \<and>
   employee (initial_state kaushal) = Some kaushal \<and>
   (\<exists>f m ws tb d.
      trace (snd (invoke ex_env ex_world (initial_state kaushal))) = trace ex_world @
        [NodeStart generate_email_node, LlmInvoke f,
         NodeStart send_email_node, GoogleAuth ''gmail'', GmailSend ''me'' m,
         NodeStart asana_task_node, AsanaAddUser ws (email kaushal), AsanaCreateTask tb,
         NodeStart find_mentor_node, SqlConnect, SqlExecute (SelectSeniorAt (location kaushal)),
         NodeStart schedule_intro_call_node, GoogleAuth ''calendar'', CalendarInsert d] \<and>
      ev_attendees d = [email kaushal, email neeraj]) \<and>
   trace (snd (node_asana_task ex_env ex_world (initial_state kaushal))) =
     [AsanaAddUser ''workspace_dummy'' ''kaushal.vachhani@example.com'',
      AsanaCreateTask \<lparr>tb_name = ''Onboarding for Kaushal Vachhani - Data Engineer'',
        tb_assignee = ''kaushal.vachhani@example.com'', tb_workspace = ''workspace_dummy'',
        tb_projects = [''project_dummy'']\<rparr>]"
proof -
  have a: "nodes_started (trace (snd (invoke ex_env ex_world (initial_state kaushal)))) =
     take 5 [generate_email_node, send_email_node, asana_task_node, find_mentor_node,
             schedule_intro_call_node]"
    by (simp add: run_from_unfold step_defs ex_defs)
  have b: "case fst (invoke ex_env ex_world (initial_state kaushal)) of
             Inr final \<Rightarrow> True | Inl e \<Rightarrow> False"
    by (simp add: run_from_unfold step_defs ex_defs)
  have c: "employee (initial_state kaushal) = Some kaushal"
    by (simp add: initial_state_def)
  have d: "trace (snd (node_asana_task ex_env ex_world (initial_state kaushal))) =
     [AsanaAddUser ''workspace_dummy'' ''kaushal.vachhani@example.com'',
      AsanaCreateTask \<lparr>tb_name = ''Onboarding for Kaushal Vachhani - Data Engineer'',
        tb_assignee = ''kaushal.vachhani@example.com'', tb_workspace = ''workspace_dummy'',
        tb_projects = [''project_dummy'']\<rparr>]"
    by (simp add: step_defs ex_defs)
  from b obtain final where b': "fst (invoke ex_env ex_world (initial_state kaushal)) = Inr final"
    by (cases "fst (invoke ex_env ex_world (initial_state kaushal))") auto
  have "case fst (invoke ex_env ex_world (initial_state kaushal)) of
          Inr final \<Rightarrow> mentor final = Some neeraj | Inl raised \<Rightarrow> False"
    by (simp add: run_from_unfold step_defs ex_defs)
  with b' have mt: "mentor final = Some neeraj" by simp
  have nf: "SqlExecute SelectSeniorAny \<notin> set (trace (snd (invoke ex_env ex_world (initial_state kaushal))))"
    by (simp add: run_from_unfold step_defs ex_defs)
  note T = steps_in_fixed_order [of ex_env ex_world "initial_state kaushal"]
  from T c b' obtain f m ws tb fb mt' d where
    tr: "trace (snd (invoke ex_env ex_world (initial_state kaushal))) = trace ex_world @
        [NodeStart generate_email_node, LlmInvoke f,
         NodeStart send_email_node, GoogleAuth ''gmail'', GmailSend ''me'' m,
         NodeStart asana_task_node, AsanaAddUser ws (email kaushal), AsanaCreateTask tb,
         NodeStart find_mentor_node, SqlConnect, SqlExecute (SelectSeniorAt (location kaushal))] @ fb @
        [NodeStart schedule_intro_call_node, GoogleAuth ''calendar'', CalendarInsert d]"
    and fb: "fb = [] \<or> fb = [SqlExecute SelectSeniorAny]"
    and mt': "mentor final = Some mt'" and at: "ev_attendees d = [email kaushal, email mt']"
    by blast
  from tr nf fb have "fb = []" by auto
  with tr mt mt' at have "trace (snd (invoke ex_env ex_world (initial_state kaushal))) = trace ex_world @
        [NodeStart generate_email_node, LlmInvoke f,
         NodeStart send_email_node, GoogleAuth ''gmail'', GmailSend ''me'' m,
         NodeStart asana_task_node, AsanaAddUser ws (email kaushal), AsanaCreateTask tb,
         NodeStart find_mentor_node, SqlConnect, SqlExecute (SelectSeniorAt (location kaushal)),
         NodeStart schedule_intro_call_node, GoogleAuth ''calendar'', CalendarInsert d] \<and>
      ev_attendees d = [email kaushal, email neeraj]"
    by simp
  with a b' c d show ?thesis by blast
qed

section \<open>Mentor and employee\<close>

text \<open>
  Claim C10, as stated, fails: the eligibility query and the mentor lookup are two separate
  reads of the store. The first seeded employee is returned by the eligibility query as a junior;
  once that employee's row has been updated to level "senior" (and no other senior is at the
  location), the select-mentor step run for the employee returns that very row as mentor: same
  identifier, same address.
\<close>

theorem own_mentor_counterexample:
  "fst (find_new_joiners_data_engineers ex_env before_world 14) = Inr [kaushal] \<and>
   (case fst (node_find_mentor ex_env promoted_world (initial_state kaushal)) of
      Inr state' \<Rightarrow> mentor state' = Some (kaushal\<lparr>level := ''senior''\<rparr>)
    | Inl raised \<Rightarrow> False) \<and>
   id_emp (kaushal\<lparr>level := ''senior''\<rparr>) = id_emp kaushal \<and>
   email (kaushal\<lparr>level := ''senior''\<rparr>) = email kaushal"
proof -
  have "fst (find_new_joiners_data_engineers ex_env before_world 14) = Inr [kaushal]"
    by (simp add: find_new_joiners_data_engineers_def today_def db_conn_def execute_def emit_def
          before_world_def ex_defs)
  moreover have "(case fst (node_find_mentor ex_env promoted_world (initial_state kaushal)) of
      Inr state' \<Rightarrow> mentor state' = Some (kaushal\<lparr>level := ''senior''\<rparr>)
    | Inl raised \<Rightarrow> False)"
    by (simp add: step_defs promoted_world_def ex_defs)
  moreover have "id_emp (kaushal\<lparr>level := ''senior''\<rparr>) = id_emp kaushal \<and>
      email (kaushal\<lparr>level := ''senior''\<rparr>) = email kaushal"
    by simp
  ultimately show ?thesis by blast
qed

text \<open>
  Claim C10, amended. For every employee returned by the eligibility query whose select-mentor
  step returns, the state holds a mentor whose record is not the employee's record as the
  eligibility query read it: the employee's level is "junior", the mentor's is "senior". The
  mentor is a different person (another identifier) when the mentor lookup reads a store with the
  rows the eligibility query read and identifiers are unique in it (the primary key).
\<close>

theorem mentor_is_not_the_employee:
  assumes elig: "fst (find_new_joiners_data_engineers env w W) = Inr joiners"
    and e: "e \<in> set joiners"
    and st: "employee state = Some e"
    and ret: "fst (node_find_mentor env' w' state) = Inr state'"
  shows "\<exists>m. mentor state' = Some m \<and> level e = ''junior'' \<and> level m = ''senior'' \<and> m \<noteq> e \<and>
             (employees w' = employees w \<and> distinct (map id_emp (employees w)) \<longrightarrow>
                id_emp m \<noteq> id_emp e)"
proof -
  from find_new_joiners_result [OF elig] e
  have e_in: "e \<in> set (employees w)" and junior: "level e = ''junior''"
    by simp_all
  from node_find_mentor_effect [OF fst_sndI [OF ret]] st obtain m where
    found: "fst (find_senior_mentor env' w' (location e)) = Inr (Some m)"
    and m: "mentor state' = Some m"
    by auto
  from mentor_found_is_senior [OF found]
  have m_in: "m \<in> set (employees w')" and senior: "level m = ''senior''"
    by (simp_all add: senior_data_engineer_def)
  from junior senior have ne: "m \<noteq> e" by auto
  have "id_emp m \<noteq> id_emp e"
    if "employees w' = employees w \<and> distinct (map id_emp (employees w))"
  proof -
    from that have "inj_on id_emp (set (employees w))" by (simp add: distinct_map)
    with that m_in e_in ne show ?thesis by (auto dest: inj_onD)
  qed
  with m junior senior ne show ?thesis by blast
qed

theorem mentor_is_not_the_employee_witness:
  "fst (find_new_joiners_data_engineers ex_env ex_world 14) = Inr [kaushal] \<and>
   kaushal \<in> set [kaushal] \<and> employee (initial_state kaushal) = Some kaushal \<and>
   (\<exists>state'. fst (node_find_mentor ex_env ex_world (initial_state kaushal)) = Inr state' \<and>
      mentor state' = Some neeraj) \<and>
   distinct (map id_emp (employees ex_world)) \<and> id_emp neeraj \<noteq> id_emp kaushal"
proof -
  have h1: "fst (find_new_joiners_data_engineers ex_env ex_world 14) = Inr [kaushal]"
    by (simp add: find_new_joiners_data_engineers_def today_def db_conn_def execute_def emit_def
          ex_defs)
  have h2: "kaushal \<in> set [kaushal]" by simp
  have h3: "employee (initial_state kaushal) = Some kaushal"
    by (simp add: initial_state_def)
  have "case fst (node_find_mentor ex_env ex_world (initial_state kaushal)) of
          Inr state' \<Rightarrow> mentor state' = Some neeraj | Inl e \<Rightarrow> False"
    by (simp add: step_defs ex_defs)
  then obtain s where h4: "fst (node_find_mentor ex_env ex_world (initial_state kaushal)) = Inr s"
    and h5: "mentor s = Some neeraj"
    by (cases "fst (node_find_mentor ex_env ex_world (initial_state kaushal))") auto
  have h6: "distinct (map id_emp (employees ex_world))"
    by (simp add: ex_defs)
  from mentor_is_not_the_employee [OF h1 h2 h3 h4] h5 h6
  have "id_emp neeraj \<noteq> id_emp kaushal" by auto
  with h1 h2 h3 h4 h5 h6 show ?thesis by blast
qed

end
